theory Spec2Isabelle
  imports Complex_Main "HOL-Library.Word" "HOL-Library.Sublist"
begin

section \<open>NeuroScan AI: the inference request pipeline of \<open>app.py\<close>\<close>

text \<open>
  A shallow embedding of \<open>src/app.py\<close>. Module-level globals that the handlers read or
  write (\<open>DEMO_MODE\<close>, \<open>model\<close>, \<open>OPENROUTER_API_KEY\<close>) are the fields of a state record
  that every function takes and returns. What the world outside the module answers (the
  file system, the two Keras runtimes, Pillow, the random generators, the chat service) is
  an explicit argument, so every function below is a pure function of the request, the
  state and those answers. Python floats are idealised as \<open>real\<close>, with one exception:
  the products with 100 of lines 145, 147, 206 and 210 are taken as binary64 arithmetic
  computes them, through the function \<open>float_mul\<close> of the outside world, since line 217
  rounds one of them and rounding does not commute with the idealisation. Output written
  with \<open>print\<close> is not modelled.
\<close>

subsection \<open>Exceptions\<close>

text \<open>
  The except clauses of \<open>app.py\<close> distinguish \<open>ImportError\<close> (in \<open>load_model\<close>) and
  \<open>requests.Timeout\<close> (in \<open>chat\<close>) from every other \<open>Exception\<close>. The constructor is
  the most specific of these three classes that the exception is an instance of; the
  string is \<open>str(e)\<close>.
\<close>

datatype py_exception = ImportError string | Timeout string | Exception string

fun str_exc :: "py_exception \<Rightarrow> string" where
  "str_exc (ImportError m) = m"
| "str_exc (Timeout m) = m"
| "str_exc (Exception m) = m"

fun is_ImportError :: "py_exception \<Rightarrow> bool" where
  "is_ImportError (ImportError m) = True"
| "is_ImportError (Timeout m) = False"
| "is_ImportError (Exception m) = False"

fun is_Timeout :: "py_exception \<Rightarrow> bool" where
  "is_Timeout (ImportError m) = False"
| "is_Timeout (Timeout m) = True"
| "is_Timeout (Exception m) = False"

subsection \<open>Module state and the model loader\<close>

type_synonym path = string

text \<open>The two artifact paths, relative to the directory of \<open>app.py\<close>.\<close>

definition MODEL_PATH :: path where
  "MODEL_PATH = ''model.h5''"

definition CONVERTED_MODEL_PATH :: path where
  "CONVERTED_MODEL_PATH = ''model_converted.keras''"

text \<open>
  Every access \<open>load_model\<close> makes to the outside is recorded in the state's trace: the
  file-system check, the import of the legacy runtime \<open>tf_keras\<close>, and the load calls of
  the two runtimes.
\<close>

datatype event = PathExists path | ImportShim | ShimLoad path | StdLoad path

text \<open>
  The answers of the outside world to \<open>load_model\<close>, for a type \<open>'h\<close> of model handles:
  \<open>os.path.exists\<close>, \<open>import tf_keras\<close> (\<open>None\<close> when the import succeeds),
  \<open>tf_keras.models.load_model\<close> and \<open>tf.keras.models.load_model\<close>.
\<close>

record 'h runtime =
  path_exists :: "path \<Rightarrow> bool"
  import_tf_keras :: "py_exception option"
  tf_keras_load_model :: "path \<Rightarrow> py_exception + 'h"
  tf_load_model :: "path \<Rightarrow> py_exception + 'h"

record 'h state =
  DEMO_MODE :: bool
  model :: "'h option"
  OPENROUTER_API_KEY :: string
  trace :: "event list"

definition emit :: "event \<Rightarrow> 'h state \<Rightarrow> 'h state" where
  "emit ev s = s\<lparr>trace := trace s @ [ev]\<rparr>"

text \<open>
  \<open>load_model\<close> (lines 65 to 106). The result is the exception raised (\<open>Inl\<close>) or the
  value returned: \<open>None\<close> in demo mode, the handle otherwise. The clause
  \<open>except ImportError\<close> guards the whole first \<open>try\<close> block, the import and the load call.
\<close>

definition load_model ::
  "'h runtime \<Rightarrow> 'h state \<Rightarrow> (py_exception + 'h option) \<times> 'h state" where
  "load_model rt s =
    (if DEMO_MODE s then (Inr None, s)
     else case model s of
       Some m \<Rightarrow> (Inr (Some m), s)
     | None \<Rightarrow>
        (let s1 = emit (PathExists CONVERTED_MODEL_PATH) s;
             model_path = (if path_exists rt CONVERTED_MODEL_PATH
                           then CONVERTED_MODEL_PATH else MODEL_PATH);
             s2 = emit ImportShim s1;
             (attempt, s3) =
               (case import_tf_keras rt of
                  Some e \<Rightarrow> (Inl e, s2)
                | None \<Rightarrow> (tf_keras_load_model rt model_path, emit (ShimLoad model_path) s2))
         in case attempt of
              Inr m \<Rightarrow> (Inr (Some m), s3\<lparr>model := Some m\<rparr>)
            | Inl e \<Rightarrow>
               (if is_ImportError e then
                  (let s4 = emit (StdLoad model_path) s3
                   in case tf_load_model rt model_path of
                        Inr m \<Rightarrow> (Inr (Some m), s4\<lparr>model := Some m\<rparr>)
                      | Inl e' \<Rightarrow> (Inl e', s4))
                else (Inl e, s3))))"

text \<open>
  The outcome of the first \<open>try\<close> block of \<open>load_model\<close> (lines 80 to 84) for the path
  \<open>p\<close>: the exception of the import, or else the outcome of the legacy load call.
\<close>

definition shim_attempt :: "'h runtime \<Rightarrow> path \<Rightarrow> py_exception + 'h" where
  "shim_attempt rt p =
    (case import_tf_keras rt of
       Some e \<Rightarrow> Inl e
     | None \<Rightarrow> tf_keras_load_model rt p)"

text \<open>The events a call adds to the trace.\<close>

definition new_events :: "'h state \<Rightarrow> 'h state \<Rightarrow> event list" where
  "new_events s s' = drop (length (trace s)) (trace s')"

text \<open>Repeated calls, each against its own answers of the outside world.\<close>

fun load_model_calls ::
  "'h runtime list \<Rightarrow> 'h state \<Rightarrow> (py_exception + 'h option) list \<times> 'h state" where
  "load_model_calls [] s = ([], s)"
| "load_model_calls (rt # rts) s =
    (let (r, s') = load_model rt s;
         (rs, s'') = load_model_calls rts s'
     in (r # rs, s''))"

subsection \<open>Python values: JSON data and the operations the handlers apply to it\<close>

text \<open>
  What \<open>request.get_json()\<close> and \<open>response.json()\<close> return. A \<open>dict\<close> is an association
  list read with \<open>map_of\<close>. Strings are lists of 8-bit characters, so the model covers the
  code points below 256.
\<close>

datatype json =
    JNull
  | JBool bool
  | JInt int
  | JFloat real
  | JStr string
  | JList "json list"
  | JDict "(string \<times> json) list"

text \<open>Truth value of an object, as \<open>if data\<close> and \<open>not user_message\<close> test it.\<close>

fun truthy :: "json \<Rightarrow> bool" where
  "truthy JNull = False"
| "truthy (JBool b) = b"
| "truthy (JInt i) = (i \<noteq> 0)"
| "truthy (JFloat x) = (x \<noteq> 0)"
| "truthy (JStr s) = (s \<noteq> [])"
| "truthy (JList xs) = (xs \<noteq> [])"
| "truthy (JDict kvs) = (kvs \<noteq> [])"

fun type_name :: "json \<Rightarrow> string" where
  "type_name JNull = ''NoneType''"
| "type_name (JBool b) = ''bool''"
| "type_name (JInt i) = ''int''"
| "type_name (JFloat x) = ''float''"
| "type_name (JStr s) = ''str''"
| "type_name (JList xs) = ''list''"
| "type_name (JDict kvs) = ''dict''"

text \<open>
  The messages of the exceptions the interpreter raises are those of CPython 3.12; no
  theorem below depends on their wording.
\<close>

fun is_substr :: "string \<Rightarrow> string \<Rightarrow> bool" where
  "is_substr k [] = (k = [])"
| "is_substr k (c # cs) = (prefix k (c # cs) \<or> is_substr k cs)"

text \<open>\<open>k in v\<close> for a string \<open>k\<close>: substring, element or key, by the type of \<open>v\<close>.\<close>

fun py_in :: "string \<Rightarrow> json \<Rightarrow> py_exception + bool" where
  "py_in k (JStr s) = Inr (is_substr k s)"
| "py_in k (JList xs) = Inr (List.member xs (JStr k))"
| "py_in k (JDict kvs) = Inr (map_of kvs k \<noteq> None)"
| "py_in k v = Inl (Exception (''argument of type '' @ [CHR 0x27] @ type_name v @ [CHR 0x27]
                               @ '' is not iterable''))"

text \<open>\<open>v[k]\<close> for a string \<open>k\<close>.\<close>

fun getitem_str :: "json \<Rightarrow> string \<Rightarrow> py_exception + json" where
  "getitem_str (JDict kvs) k =
     (case map_of kvs k of
        Some v \<Rightarrow> Inr v
      | None \<Rightarrow> Inl (Exception ([CHR 0x27] @ k @ [CHR 0x27])))"
| "getitem_str (JList xs) k =
     Inl (Exception ''list indices must be integers or slices, not str'')"
| "getitem_str (JStr s) k =
     Inl (Exception (''string indices must be integers, not '' @ [CHR 0x27] @ ''str'' @ [CHR 0x27]))"
| "getitem_str v k =
     Inl (Exception ([CHR 0x27] @ type_name v @ [CHR 0x27] @ '' object is not subscriptable''))"

text \<open>\<open>v[0]\<close>.\<close>

fun getitem_0 :: "json \<Rightarrow> py_exception + json" where
  "getitem_0 (JList xs) =
     (case xs of [] \<Rightarrow> Inl (Exception ''list index out of range'') | x # _ \<Rightarrow> Inr x)"
| "getitem_0 (JStr s) =
     (case s of [] \<Rightarrow> Inl (Exception ''string index out of range'') | c # _ \<Rightarrow> Inr (JStr [c]))"
| "getitem_0 (JDict kvs) = Inl (Exception ''0'')"
| "getitem_0 v =
     Inl (Exception ([CHR 0x27] @ type_name v @ [CHR 0x27] @ '' object is not subscriptable''))"

text \<open>\<open>v.get(k, d)\<close>: only a \<open>dict\<close> has the method.\<close>

fun py_get :: "json \<Rightarrow> string \<Rightarrow> json \<Rightarrow> py_exception + json" where
  "py_get (JDict kvs) k d = Inr (case map_of kvs k of Some v \<Rightarrow> v | None \<Rightarrow> d)"
| "py_get v k d =
     Inl (Exception ([CHR 0x27] @ type_name v @ [CHR 0x27] @ '' object has no attribute ''
                     @ [CHR 0x27] @ ''get'' @ [CHR 0x27]))"

text \<open>
  \<open>str.strip()\<close> removes leading and trailing whitespace: the characters for which
  \<open>str.isspace\<close> holds, here those below 256.
\<close>

definition isspace :: "char \<Rightarrow> bool" where
  "isspace c = (of_char c \<in> {9, 10, 11, 12, 13, 28, 29, 30, 31, 32, 133, 160 :: nat})"

definition strip :: "string \<Rightarrow> string" where
  "strip s = rev (dropWhile isspace (rev (dropWhile isspace s)))"

fun py_strip :: "json \<Rightarrow> py_exception + string" where
  "py_strip (JStr s) = Inr (strip s)"
| "py_strip v =
     Inl (Exception ([CHR 0x27] @ type_name v @ [CHR 0x27] @ '' object has no attribute ''
                     @ [CHR 0x27] @ ''strip'' @ [CHR 0x27]))"

text \<open>\<open>s.split(c)\<close> for a separator of one character.\<close>

fun split_on :: "char \<Rightarrow> string \<Rightarrow> string list" where
  "split_on c [] = [[]]"
| "split_on c (x # xs) =
     (if x = c then [] # split_on c xs
      else case split_on c xs of
             [] \<Rightarrow> [[x]]
           | w # ws \<Rightarrow> (x # w) # ws)"

text \<open>\<open>v.split(',')[1]\<close>.\<close>

fun py_split_1 :: "json \<Rightarrow> py_exception + json" where
  "py_split_1 (JStr s) =
     (case split_on (CHR '','') s of
        _ # p # _ \<Rightarrow> Inr (JStr p)
      | _ \<Rightarrow> Inl (Exception ''list index out of range''))"
| "py_split_1 v =
     Inl (Exception ([CHR 0x27] @ type_name v @ [CHR 0x27] @ '' object has no attribute ''
                     @ [CHR 0x27] @ ''split'' @ [CHR 0x27]))"

text \<open>Decimal notation, as \<open>str\<close> and f-strings print an \<open>int\<close>.\<close>

fun str_nat :: "nat \<Rightarrow> string" where
  "str_nat n =
     (if n < 10 then [''0123456789'' ! n]
      else str_nat (n div 10) @ [''0123456789'' ! (n mod 10)])"

definition str_int :: "int \<Rightarrow> string" where
  "str_int i = (if i < 0 then CHR ''-'' # str_nat (nat (- i)) else str_nat (nat i))"

text \<open>Sequencing of steps that may raise.\<close>

definition bind_exc :: "py_exception + 'a \<Rightarrow> ('a \<Rightarrow> py_exception + 'b) \<Rightarrow> py_exception + 'b" where
  "bind_exc x f = (case x of Inl e \<Rightarrow> Inl e | Inr v \<Rightarrow> f v)"

subsection \<open>Base64\<close>

type_synonym byte = "8 word"

definition b64_alphabet :: string where
  "b64_alphabet = ''ABCDEFGHIJKLMNOPQRSTUVWXYZabcdefghijklmnopqrstuvwxyz0123456789+/''"

fun index_of :: "'a \<Rightarrow> 'a list \<Rightarrow> nat option" where
  "index_of x [] = None"
| "index_of x (y # ys) =
     (if x = y then Some 0 else map_option Suc (index_of x ys))"

text \<open>The value of a character of the alphabet; \<open>None\<close> for every other character.\<close>

definition b64_value :: "char \<Rightarrow> nat option" where
  "b64_value c = index_of c b64_alphabet"

text \<open>
  \<open>binascii.a2b_base64\<close> in its default, non-strict mode (CPython 3.11 and later), the
  function \<open>base64.b64decode\<close> calls: a loop over the characters with the state
  \<open>quad_pos\<close>, \<open>leftchar\<close>, \<open>pads\<close> and the bytes written so far. Characters outside
  the alphabet are skipped; a complete pad sequence ends the input; the shifts of the C
  code are written as multiplications and divisions.
\<close>

fun a2b_loop :: "nat \<Rightarrow> nat \<Rightarrow> nat \<Rightarrow> byte list \<Rightarrow> string \<Rightarrow> py_exception + byte list" where
  "a2b_loop quad_pos leftchar pads out [] =
     (if quad_pos = 0 then Inr out
      else if quad_pos = 1 then
        Inl (Exception (''Invalid base64-encoded string: number of data characters (''
                        @ str_nat (length out div 3 * 4 + 1)
                        @ '') cannot be 1 more than a multiple of 4''))
      else Inl (Exception ''Incorrect padding''))"
| "a2b_loop quad_pos leftchar pads out (c # cs) =
     (if c = CHR ''='' then
        (if 2 \<le> quad_pos then
           (if 4 \<le> quad_pos + (pads + 1) then Inr out
            else a2b_loop quad_pos leftchar (pads + 1) out cs)
         else a2b_loop quad_pos leftchar pads out cs)
      else case b64_value c of
        None \<Rightarrow> a2b_loop quad_pos leftchar pads out cs
      | Some v \<Rightarrow>
         (if quad_pos = 0 then a2b_loop 1 v 0 out cs
          else if quad_pos = 1 then
            a2b_loop 2 (v mod 16) 0 (out @ [of_nat (leftchar * 4 + v div 16)]) cs
          else if quad_pos = 2 then
            a2b_loop 3 (v mod 4) 0 (out @ [of_nat (leftchar * 16 + v div 4)]) cs
          else a2b_loop 0 0 0 (out @ [of_nat (leftchar * 64 + v)]) cs))"

definition is_ascii :: "char \<Rightarrow> bool" where
  "is_ascii c = (of_char c < (128 :: nat))"

text \<open>
  \<open>base64.b64decode(v)\<close>: a \<open>str\<close> is first encoded as ASCII, which raises
  \<open>ValueError\<close> on any other character; a value that is no string raises \<open>TypeError\<close>.
\<close>

fun b64decode :: "json \<Rightarrow> py_exception + byte list" where
  "b64decode (JStr s) =
     (if list_all is_ascii s then a2b_loop 0 0 0 [] s
      else Inl (Exception ''string argument should contain only ASCII characters''))"
| "b64decode v =
     Inl (Exception (''argument should be a bytes-like object or ASCII string, not ''
                     @ [CHR 0x27] @ type_name v @ [CHR 0x27]))"

text \<open>
  The standard Base64 encoding of RFC 4648 (\<open>base64.b64encode\<close>), in which a client
  writes the \<open>image\<close> field: three bytes become four characters, and a last group of one
  or two bytes is padded with \<open>=\<close>.
\<close>

definition b64_char :: "nat \<Rightarrow> char" where
  "b64_char n = b64_alphabet ! n"

fun b64encode :: "byte list \<Rightarrow> string" where
  "b64encode [] = []"
| "b64encode [a] =
     [b64_char (unat a div 4), b64_char (unat a mod 4 * 16), CHR ''='', CHR ''='']"
| "b64encode [a, b] =
     [b64_char (unat a div 4), b64_char (unat a mod 4 * 16 + unat b div 16),
      b64_char (unat b mod 16 * 4), CHR ''='']"
| "b64encode (a # b # c # bs) =
     [b64_char (unat a div 4), b64_char (unat a mod 4 * 16 + unat b div 16),
      b64_char (unat b mod 16 * 4 + unat c div 64), b64_char (unat c mod 64)]
     @ b64encode bs"

subsection \<open>Requests, responses and input extraction of \<open>/predict\<close>\<close>

text \<open>
  An uploaded file: its \<open>filename\<close> and what \<open>file.read()\<close> gives. A request: what the
  accesses \<open>request.files\<close> and \<open>request.get_json()\<close> give; both may raise (a body over
  \<open>MAX_CONTENT_LENGTH\<close>, a body that is not JSON).
\<close>

record upload =
  filename :: string
  read :: "py_exception + byte list"

record request =
  files :: "py_exception + (string \<times> upload) list"
  get_json :: "py_exception + json"

text \<open>A response: the status code and the JSON object that \<open>jsonify\<close> was given.\<close>

record response =
  status :: nat
  body :: "(string \<times> json) list"

definition jsonify :: "(string \<times> json) list \<Rightarrow> nat \<Rightarrow> response" where
  "jsonify d code = \<lparr>status = code, body = d\<rparr>"

text \<open>
  Lines 164 to 179 of \<open>predict\<close>: an exception, an early response, or the image bytes.
\<close>

definition extract_image :: "request \<Rightarrow> py_exception + (response + byte list)" where
  "extract_image req =
     bind_exc (files req) (\<lambda>fs.
       case map_of fs ''image'' of
         None \<Rightarrow>
           bind_exc (get_json req) (\<lambda>data.
           bind_exc (if truthy data then py_in ''image'' data else Inr False) (\<lambda>present.
             if present then
               bind_exc (getitem_str data ''image'') (\<lambda>image_data.
               bind_exc (py_in '','' image_data) (\<lambda>has_comma.
               bind_exc (if has_comma then py_split_1 image_data else Inr image_data) (\<lambda>image_data.
               bind_exc (b64decode image_data) (\<lambda>image_bytes.
                 Inr (Inr image_bytes)))))
             else Inr (Inl (jsonify [(''error'', JStr ''No image provided'')] 400))))
       | Some file \<Rightarrow>
           if filename file = [] then
             Inr (Inl (jsonify [(''error'', JStr ''No image selected'')] 400))
           else bind_exc (read file) (\<lambda>image_bytes. Inr (Inr image_bytes)))"

subsection \<open>The tensor preprocessor\<close>

text \<open>
  A Pillow image: its mode, its size (width, height) and its pixel data as \<open>np.array\<close>
  reads it, rows of pixels of band values. The three Pillow operations that
  \<open>preprocess_image\<close> calls are answers of the outside world; each may raise (the pixel
  data of a file is decoded lazily).
\<close>

record image =
  mode :: string
  size_im :: "nat \<times> nat"
  pixels :: "nat list list list"

record pil =
  Image_open :: "byte list \<Rightarrow> py_exception + image"
  convert :: "image \<Rightarrow> string \<Rightarrow> py_exception + image"
  resize :: "image \<Rightarrow> nat \<times> nat \<Rightarrow> py_exception + image"

type_synonym tensor = "real list list list list"

text \<open>\<open>preprocess_image\<close> (lines 109 to 127).\<close>

definition preprocess_image :: "pil \<Rightarrow> byte list \<Rightarrow> py_exception + tensor" where
  "preprocess_image lib image_data =
     bind_exc (Image_open lib image_data) (\<lambda>image.
     bind_exc (if mode image \<noteq> ''RGB'' then convert lib image ''RGB'' else Inr image) (\<lambda>image.
     bind_exc (resize lib image (299, 299)) (\<lambda>image.
       let img_array = map (map (map (\<lambda>v. real v / 255))) (pixels image);
           img_array = [img_array]
       in Inr img_array)))"

text \<open>
  What Pillow documents of an image in mode \<open>RGB\<close>: the pixel grid has the image's size,
  and every pixel has three bands of 8 bits.
\<close>

definition rgb_image :: "image \<Rightarrow> bool" where
  "rgb_image im \<longleftrightarrow>
     mode im = ''RGB'' \<and> length (pixels im) = snd (size_im im) \<and>
     list_all (\<lambda>row. length row = fst (size_im im) \<and>
                      list_all (\<lambda>px. length px = 3 \<and> list_all (\<lambda>v. v \<le> 255) px) row)
              (pixels im)"

text \<open>
  What Pillow documents of the three operations: an image opened in mode \<open>RGB\<close> is an
  \<open>RGB\<close> image; \<open>convert\<close> returns an image of the requested mode; \<open>resize\<close> returns
  an image of the same mode and of the requested size.
\<close>

definition pil_contract :: "pil \<Rightarrow> bool" where
  "pil_contract lib \<longleftrightarrow>
     (\<forall>b im. Image_open lib b = Inr im \<longrightarrow> mode im = ''RGB'' \<longrightarrow> rgb_image im) \<and>
     (\<forall>im im'. convert lib im ''RGB'' = Inr im' \<longrightarrow> rgb_image im') \<and>
     (\<forall>im sz im'. rgb_image im \<longrightarrow> resize lib im sz = Inr im' \<longrightarrow>
                    rgb_image im' \<and> size_im im' = sz)"

text \<open>Shape of a four-dimensional array, and a bound on all its values.\<close>

definition has_shape :: "nat \<Rightarrow> nat \<Rightarrow> nat \<Rightarrow> nat \<Rightarrow> tensor \<Rightarrow> bool" where
  "has_shape n h w c t \<longleftrightarrow>
     length t = n \<and>
     list_all (\<lambda>a. length a = h \<and>
                    list_all (\<lambda>r. length r = w \<and> list_all (\<lambda>p. length p = c) r) a) t"

definition values_in :: "real \<Rightarrow> real \<Rightarrow> tensor \<Rightarrow> bool" where
  "values_in lo hi t \<longleftrightarrow>
     list_all (list_all (list_all (list_all (\<lambda>v. lo \<le> v \<and> v \<le> hi)))) t"

subsection \<open>The demo predictor\<close>

definition CLASS_LABELS :: "string list" where
  "CLASS_LABELS = [''Glioma'', ''Meningioma'', ''No Tumor'', ''Pituitary'']"

text \<open>
  The random draws of one call of \<open>demo_predict\<close>: the sample that
  \<open>np.random.dirichlet\<close> returns for a parameter vector, the value of
  \<open>random.random()\<close>, and the value of \<open>random.randint\<close> for its two bounds.
\<close>

record rng =
  np_random_dirichlet :: "real list \<Rightarrow> real list"
  random_random :: real
  random_randint :: "int \<Rightarrow> int \<Rightarrow> nat"

text \<open>\<open>np.argmax\<close> of a one-dimensional array: the first index of a maximal entry.\<close>

fun argmax :: "real list \<Rightarrow> nat" where
  "argmax [] = 0"
| "argmax [x] = 0"
| "argmax (x # y # ys) =
     (let j = argmax (y # ys) in if x < (y # ys) ! j then Suc j else 0)"

definition np_argmax :: "real list \<Rightarrow> py_exception + nat" where
  "np_argmax xs =
     (if xs = [] then Inl (Exception ''attempt to get argmax of an empty sequence'')
      else Inr (argmax xs))"

text \<open>\<open>xs[i]\<close> for an index that is not negative.\<close>

definition getitem :: "'a list \<Rightarrow> nat \<Rightarrow> string \<Rightarrow> py_exception + 'a" where
  "getitem xs i msg = (if i < length xs then Inr (xs ! i) else Inl (Exception msg))"

text \<open>
  The dictionary comprehension over \<open>zip(CLASS_LABELS, probs)\<close>, shared by the demo
  predictor and the real mode; \<open>fm\<close> is the binary64 multiplication.
\<close>

definition percentages :: "(real \<Rightarrow> real \<Rightarrow> real) \<Rightarrow> real list \<Rightarrow> (string \<times> json) list" where
  "percentages fm probs = zip CLASS_LABELS (map (\<lambda>prob. JFloat (fm prob 100)) probs)"

text \<open>
  Lines 133 to 139 of \<open>demo_predict\<close>: the weights of the four classes. The in-place
  update \<open>probs[dominant_idx] += 0.5\<close> raises \<open>IndexError\<close> outside the array. Where
  NumPy divides by a zero sum without raising, the model divides in \<open>real\<close>; no sample
  with entries that are not negative reaches that case.
\<close>

definition demo_probs :: "rng \<Rightarrow> py_exception + real list" where
  "demo_probs g =
     (let probs = np_random_dirichlet g (map (\<lambda>x. x * 2) (replicate 4 1)) in
      if random_random g > 0.3 then
        (let dominant_idx = random_randint g 0 3 in
         if dominant_idx < length probs then
           (let probs = probs[dominant_idx := probs ! dominant_idx + 0.5]
            in Inr (map (\<lambda>x. x / sum_list probs) probs))
         else Inl (Exception (''index '' @ str_nat dominant_idx
                              @ '' is out of bounds for axis 0 with size ''
                              @ str_nat (length probs))))
      else Inr probs)"

text \<open>\<open>demo_predict\<close> (lines 130 to 150).\<close>

definition demo_predict ::
  "(real \<Rightarrow> real \<Rightarrow> real) \<Rightarrow> rng \<Rightarrow> py_exception + (string \<times> json) list" where
  "demo_predict fm g =
     bind_exc (demo_probs g) (\<lambda>probs.
     bind_exc (np_argmax probs) (\<lambda>predicted_idx.
     bind_exc (getitem CLASS_LABELS predicted_idx ''list index out of range'') (\<lambda>label.
       Inr [(''prediction'', JStr label),
            (''confidence'', JFloat (fm (probs ! predicted_idx) 100)),
            (''probabilities'', JDict (percentages fm probs))])))"

subsection \<open>The handler of \<open>/predict\<close>\<close>

text \<open>
  \<open>round(x, 2)\<close>: the value of the float \<open>x\<close> rounded to the nearest multiple of
  \<open>0.01\<close>, a tie to the even one.
\<close>

definition py_round :: "real \<Rightarrow> int" where
  "py_round x =
     (let f = \<lfloor>x\<rfloor>; d = x - of_int f
      in if d < 1 / 2 then f else if 1 / 2 < d then f + 1 else if even f then f else f + 1)"

definition round2 :: "real \<Rightarrow> real" where
  "round2 x = of_int (py_round (x * 100)) / 100"

text \<open>
  Everything outside the module that one request of \<open>/predict\<close> may consult: the
  runtimes of \<open>load_model\<close>, Pillow, the random generators, the forward pass
  \<open>loaded_model.predict\<close>, which returns a batch of rows, and the multiplication of
  two floats in binary64.
\<close>

record 'h world =
  runtimes :: "'h runtime"
  pillow :: pil
  generators :: rng
  model_predict :: "'h \<Rightarrow> tensor \<Rightarrow> py_exception + real list list"
  float_mul :: "real \<Rightarrow> real \<Rightarrow> real"

text \<open>
  The body of the \<open>try\<close> statement of \<open>predict\<close> (lines 163 to 219): the exception that
  leaves it, or the response it returns, and the state after it. The delay
  \<open>time.sleep(0.5)\<close> of the demo mode is not modelled.
\<close>

definition predict_try ::
  "'h world \<Rightarrow> request \<Rightarrow> 'h state \<Rightarrow> (py_exception + response) \<times> 'h state" where
  "predict_try w req s =
     (case extract_image req of
        Inl e \<Rightarrow> (Inl e, s)
      | Inr (Inl early) \<Rightarrow> (Inr early, s)
      | Inr (Inr image_bytes) \<Rightarrow>
          if DEMO_MODE s then
            (bind_exc (demo_predict (float_mul w) (generators w)) (\<lambda>result.
               Inr (jsonify ([(''success'', JBool True), (''demo_mode'', JBool True)] @ result) 200)),
             s)
          else
            (case load_model (runtimes w) s of
               (Inl e, s') \<Rightarrow> (Inl e, s')
             | (Inr loaded_model, s') \<Rightarrow>
                 (bind_exc (preprocess_image (pillow w) image_bytes) (\<lambda>processed_image.
                  bind_exc (case loaded_model of
                              None \<Rightarrow> Inl (Exception (
                                [CHR 0x27] @ ''NoneType'' @ [CHR 0x27] @ '' object has no attribute ''
                                @ [CHR 0x27] @ ''predict'' @ [CHR 0x27]))
                            | Some m \<Rightarrow> model_predict w m processed_image) (\<lambda>predictions.
                  bind_exc (getitem predictions 0
                              ''index 0 is out of bounds for axis 0 with size 0'') (\<lambda>row.
                  bind_exc (np_argmax row) (\<lambda>predicted_class_idx.
                  bind_exc (getitem CLASS_LABELS predicted_class_idx
                              ''list index out of range'') (\<lambda>predicted_class.
                    let confidence = float_mul w (row ! predicted_class_idx) 100;
                        probabilities = percentages (float_mul w) row
                    in Inr (jsonify [(''success'', JBool True),
                                     (''prediction'', JStr predicted_class),
                                     (''confidence'', JFloat (round2 confidence)),
                                     (''probabilities'', JDict probabilities)] 200)))))),
                  s')))"

text \<open>
  \<open>predict\<close> (lines 159 to 222): the \<open>try\<close> body under \<open>except Exception\<close>, whose
  response (line 222) carries \<open>str(e)\<close> with status 500.
\<close>

definition error_500 :: "py_exception \<Rightarrow> response" where
  "error_500 e = jsonify [(''error'', JStr (str_exc e))] 500"

definition predict :: "'h world \<Rightarrow> request \<Rightarrow> 'h state \<Rightarrow> response \<times> 'h state" where
  "predict w req s =
     (case predict_try w req s of
        (Inl e, s') \<Rightarrow> (error_500 e, s')
      | (Inr r, s') \<Rightarrow> (r, s'))"

text \<open>\<open>health\<close> (lines 315 to 323).\<close>

definition health :: "'h state \<Rightarrow> response" where
  "health s =
     jsonify [(''status'', JStr ''healthy''),
              (''demo_mode'', JBool (DEMO_MODE s)),
              (''model_loaded'', JBool (model s \<noteq> None)),
              (''chatbot_configured'', JBool (OPENROUTER_API_KEY s \<noteq> []))] 200"

text \<open>
  The states of the process. The module starts with no model and a demo flag; from then
  on the state changes only through calls of \<open>load_model\<close> and requests of \<open>/predict\<close>,
  and through the start-up code (lines 336 to 341), which switches to demo mode when its
  call of \<open>load_model\<close> raises.
\<close>

inductive reachable :: "'h state \<Rightarrow> bool" where
  start: "reachable \<lparr>DEMO_MODE = d, model = None, OPENROUTER_API_KEY = k, trace = []\<rparr>"
| loaded: "reachable s \<Longrightarrow> load_model rt s = (r, s') \<Longrightarrow> reachable s'"
| startup_failed:
    "reachable s \<Longrightarrow> load_model rt s = (Inl e, s') \<Longrightarrow> reachable (s'\<lparr>DEMO_MODE := True\<rparr>)"
| served: "reachable s \<Longrightarrow> predict w req s = (resp, s') \<Longrightarrow> reachable s'"

subsection \<open>The chat proxy\<close>

definition OPENROUTER_MODEL :: string where
  "OPENROUTER_MODEL = ''nvidia/nemotron-nano-9b-v2:free''"

definition OPENROUTER_API_URL :: string where
  "OPENROUTER_API_URL = ''https://openrouter.ai/api/v1/chat/completions''"

definition CHATBOT_SYSTEM_PROMPT :: string where
  "CHATBOT_SYSTEM_PROMPT =
     ''You are NeuroScan AI Assistant, a helpful medical AI assistant specializing in brain tumor information and MRI imaging. You provide educational information about:''
     @ [CHR 0x0A, CHR 0x0A]
     @ ''- Brain tumor types (Glioma, Meningioma, Pituitary tumors)'' @ [CHR 0x0A]
     @ ''- MRI imaging and how it'' @ [CHR 0x27] @ ''s used in diagnosis'' @ [CHR 0x0A]
     @ ''- General information about symptoms, treatments, and prognosis'' @ [CHR 0x0A]
     @ ''- Explaining medical terminology in simple terms'' @ [CHR 0x0A, CHR 0x0A]
     @ ''IMPORTANT GUIDELINES:'' @ [CHR 0x0A]
     @ ''1. Always clarify that you provide educational information only, NOT medical diagnosis''
     @ [CHR 0x0A]
     @ ''2. Encourage users to consult qualified healthcare professionals for medical advice''
     @ [CHR 0x0A]
     @ ''3. Be compassionate and supportive when discussing sensitive health topics'' @ [CHR 0x0A]
     @ ''4. If asked about unrelated topics, politely redirect to brain health and MRI topics''
     @ [CHR 0x0A]
     @ ''5. Keep responses concise but informative (2-3 paragraphs max)'' @ [CHR 0x0A, CHR 0x0A]
     @ ''You are integrated into the NeuroScan AI brain tumor classification application.''"

text \<open>
  One call of \<open>requests.post\<close> with its keyword arguments, and the response object it
  returns: \<open>status_code\<close>, \<open>text\<close> and the outcome of \<open>json()\<close>.
\<close>

record post_call =
  url :: string
  headers :: "(string \<times> string) list"
  json_payload :: json
  timeout :: nat

record http_response =
  status_code :: int
  body_text :: string
  body_json :: "py_exception + json"

text \<open>
  The outside of \<open>chat\<close>: the chat service behind \<open>requests.post\<close>, and how an f-string
  prints a value that is no string.
\<close>

record chat_world =
  requests_post :: "post_call \<Rightarrow> py_exception + http_response"
  py_repr :: "json \<Rightarrow> string"

fun format_value :: "chat_world \<Rightarrow> json \<Rightarrow> string" where
  "format_value cw (JStr s) = s"
| "format_value cw v = py_repr cw v"

text \<open>Lines 247 and 248: \<open>data.get('message', '').strip()\<close>.\<close>

definition user_message_of :: "request \<Rightarrow> py_exception + string" where
  "user_message_of req =
     bind_exc (get_json req) (\<lambda>data.
     bind_exc (py_get data ''message'' (JStr [])) (\<lambda>message.
       py_strip message))"

text \<open>
  Lines 261 to 284: the arguments of the one call of \<open>requests.post\<close>, for the key of
  the state and the trimmed message.
\<close>

definition chat_request :: "'h state \<Rightarrow> string \<Rightarrow> post_call" where
  "chat_request s user_message =
     \<lparr>url = OPENROUTER_API_URL,
      headers = [(''Authorization'', ''Bearer '' @ OPENROUTER_API_KEY s),
                 (''Content-Type'', ''application/json''),
                 (''HTTP-Referer'', ''https://neuroscan-ai.app''),
                 (''X-Title'', ''NeuroScan AI'')],
      json_payload = JDict
        [(''model'', JStr OPENROUTER_MODEL),
         (''messages'', JList
            [JDict [(''role'', JStr ''system''), (''content'', JStr CHATBOT_SYSTEM_PROMPT)],
             JDict [(''role'', JStr ''user''), (''content'', JStr user_message)]]),
         (''max_tokens'', JInt 500),
         (''temperature'', JFloat 0.7)],
      timeout = 30\<rparr>"

text \<open>Lines 286 to 301: what \<open>chat\<close> makes of the response of the service.\<close>

definition relay :: "chat_world \<Rightarrow> http_response \<Rightarrow> py_exception + response" where
  "relay cw response =
     (if status_code response \<noteq> 200 then
        bind_exc (if body_text response \<noteq> [] then body_json response
                  else Inr (JDict [])) (\<lambda>error_detail.
        bind_exc (py_get error_detail ''error'' (JDict [])) (\<lambda>err.
        bind_exc (py_get err ''message'' (JStr ''Unknown error'')) (\<lambda>error_msg.
          Inr (jsonify
            [(''error'', JStr (''API error: '' @ str_int (status_code response))),
             (''response'', JStr (''API Error: '' @ format_value cw error_msg
                                  @ ''. Please try again later.''))]
            200))))
      else
        bind_exc (body_json response) (\<lambda>result.
        bind_exc (getitem_str result ''choices'') (\<lambda>choices.
        bind_exc (getitem_0 choices) (\<lambda>choice.
        bind_exc (getitem_str choice ''message'') (\<lambda>message.
        bind_exc (getitem_str message ''content'') (\<lambda>assistant_message.
          Inr (jsonify [(''success'', JBool True),
                        (''response'', assistant_message)] 200)))))))"

text \<open>
  The body of the \<open>try\<close> statement of \<open>chat\<close> (lines 247 to 301), with the calls of
  \<open>requests.post\<close> it made.
\<close>

definition chat_try ::
  "chat_world \<Rightarrow> request \<Rightarrow> 'h state \<Rightarrow> (py_exception + response) \<times> post_call list" where
  "chat_try cw req s =
     (case user_message_of req of
        Inl e \<Rightarrow> (Inl e, [])
      | Inr user_message \<Rightarrow>
          if user_message = [] then
            (Inr (jsonify [(''error'', JStr ''No message provided'')] 400), [])
          else if OPENROUTER_API_KEY s = [] then
            (Inr (jsonify
               [(''error'', JStr ''Chatbot not configured. Please set OPENROUTER_API_KEY environment variable.''),
                (''response'', JStr ''I apologize, but the chatbot is not configured yet. Please add your OpenRouter API key to enable this feature.'')]
               200), [])
          else
            (bind_exc (requests_post cw (chat_request s user_message)) (relay cw),
             [chat_request s user_message]))"

text \<open>
  \<open>chat\<close> (lines 243 to 312): the \<open>try\<close> body under \<open>except requests.Timeout\<close>
  (lines 303 to 307) and \<open>except Exception\<close> (lines 308 to 312).
\<close>

definition timeout_response :: response where
  "timeout_response =
     jsonify [(''error'', JStr ''Request timeout''),
              (''response'', JStr ''The request took too long. Please try again.'')] 200"

definition failure_response :: "py_exception \<Rightarrow> response" where
  "failure_response e =
     jsonify [(''error'', JStr (str_exc e)),
              (''response'', JStr ''An error occurred. Please try again.'')] 200"

definition chat ::
  "chat_world \<Rightarrow> request \<Rightarrow> 'h state \<Rightarrow> response \<times> post_call list" where
  "chat cw req s =
     (case chat_try cw req s of
        (Inl e, calls) \<Rightarrow>
          (if is_Timeout e then timeout_response else failure_response e, calls)
      | (Inr r, calls) \<Rightarrow> (r, calls))"

subsection \<open>Notions of the specification\<close>

text \<open>
  An \<open>image\<close> field with a data-URL scheme marker: \<open>data:\<close>, a media type,
  \<open>;base64,\<close> and the payload.
\<close>

definition data_url :: "string \<Rightarrow> string \<Rightarrow> string" where
  "data_url ty payload = ''data:'' @ ty @ '';base64,'' @ payload"

text \<open>
  A four-class probability output: four values, none negative, that sum to one within
  \<open>0.00005\<close> (the sum of a float32 softmax row is one within about \<open>10\<^sup>-\<^sup>7\<close>).
\<close>

definition probability_vector :: "real list \<Rightarrow> bool" where
  "probability_vector xs \<longleftrightarrow>
     length xs = 4 \<and> list_all (\<lambda>x. 0 \<le> x) xs \<and> \<bar>sum_list xs - 1\<bar> \<le> 1 / 20000"

text \<open>
  What binary64 arithmetic guarantees of a product with 100: for a factor of magnitude
  at most 2 the result is within \<open>10\<^sup>-\<^sup>9\<close> of the exact product (the rounding error is
  below \<open>200 \<sqdot> 2\<^sup>-\<^sup>5\<^sup>3\<close>).
\<close>

definition float_mul_accurate :: "(real \<Rightarrow> real \<Rightarrow> real) \<Rightarrow> bool" where
  "float_mul_accurate fm \<longleftrightarrow> (\<forall>x. \<bar>x\<bar> \<le> 2 \<longrightarrow> \<bar>fm x 100 - x * 100\<bar> \<le> 1 / 10 ^ 9)"

text \<open>
  \<open>c\<close> is \<open>x\<close> rounded to two decimal places: a multiple of \<open>0.01\<close> at distance at most
  \<open>0.005\<close> from \<open>x\<close>, the even multiple when \<open>x\<close> lies halfway between two.
\<close>

definition rounded_to_2_places :: "real \<Rightarrow> real \<Rightarrow> bool" where
  "rounded_to_2_places x c \<longleftrightarrow>
     (\<exists>k :: int. c = of_int k / 100 \<and> \<bar>c - x\<bar> \<le> 1 / 200 \<and> (\<bar>c - x\<bar> = 1 / 200 \<longrightarrow> even k))"

subsection \<open>Concrete inputs\<close>

text \<open>
  A fresh process in real mode; a world where neither artifact loads (no converted file,
  no legacy runtime, a standard runtime that rejects the file); and a world where the
  legacy runtime loads the converted artifact as the handle \<open>7\<close>.
\<close>

definition s0 :: "nat state" where
  "s0 = \<lparr>DEMO_MODE = False, model = None, OPENROUTER_API_KEY = [], trace = []\<rparr>"

definition rt_broken :: "nat runtime" where
  "rt_broken =
     \<lparr>path_exists = (\<lambda>p. False),
      import_tf_keras = Some (ImportError ''No module named tf_keras''),
      tf_keras_load_model = (\<lambda>p. Inr 1),
      tf_load_model = (\<lambda>p. Inl (Exception ''bad marshal data''))\<rparr>"

definition rt_legacy :: "nat runtime" where
  "rt_legacy =
     \<lparr>path_exists = (\<lambda>p. True),
      import_tf_keras = None,
      tf_keras_load_model = (\<lambda>p. Inr 7),
      tf_load_model = (\<lambda>p. Inl (Exception ''bad marshal data''))\<rparr>"

text \<open>
  A world where the legacy runtime is installed but its load call raises \<open>ImportError\<close>
  (it needs \<open>h5py\<close> for an HDF5 file), and the standard runtime loads the handle \<open>9\<close>.
\<close>

definition rt_no_h5py :: "nat runtime" where
  "rt_no_h5py =
     \<lparr>path_exists = (\<lambda>p. False),
      import_tf_keras = None,
      tf_keras_load_model =
        (\<lambda>p. Inl (ImportError ''Filepath looks like a hdf5 file but h5py is not available.'')),
      tf_load_model = (\<lambda>p. Inr 9)\<rparr>"

definition s_loaded :: "nat state" where
  "s_loaded = s0\<lparr>model := Some 7,
                 trace := [PathExists CONVERTED_MODEL_PATH, ImportShim,
                           ShimLoad CONVERTED_MODEL_PATH]\<rparr>"

text \<open>
  A process in demo mode, and one in real mode with a key for the chat service.
\<close>

definition s_demo :: "nat state" where
  "s_demo = \<lparr>DEMO_MODE = True, model = None, OPENROUTER_API_KEY = [], trace = []\<rparr>"

definition s_keyed :: "nat state" where
  "s_keyed = \<lparr>DEMO_MODE = False, model = None, OPENROUTER_API_KEY = ''sk-or-v1-0'', trace = []\<rparr>"

text \<open>
  A Pillow that opens every non-empty file as a grayscale image of two pixels, and whose
  conversions and resizings give a uniformly gray image of the requested mode and size.
\<close>

definition pil_gray :: pil where
  "pil_gray =
     \<lparr>Image_open = (\<lambda>b. if b = [] then Inl (Exception ''cannot identify image file'')
                         else Inr \<lparr>mode = ''L'', size_im = (2, 1), pixels = [[[5], [6]]]\<rparr>),
      convert = (\<lambda>im m. Inr \<lparr>mode = m, size_im = size_im im,
                               pixels = replicate (snd (size_im im))
                                          (replicate (fst (size_im im)) [128, 128, 128])\<rparr>),
      resize = (\<lambda>im sz. Inr \<lparr>mode = mode im, size_im = sz,
                               pixels = replicate (snd sz) (replicate (fst sz) [128, 128, 128])\<rparr>)\<rparr>"

text \<open>
  A PNG file of one gray pixel of value 128 (8-bit grayscale), and a Pillow that opens
  this file, and no other, as what it is: an image of mode \<open>L\<close> and size (1, 1).
  Its conversions and resizings are those of \<open>pil_gray\<close>, which are right for this
  image.
\<close>

definition png_gray :: "byte list" where
  "png_gray =
     [137, 80, 78, 71, 13, 10, 26, 10, 0, 0, 0, 13, 73, 72, 68, 82, 0, 0, 0, 1, 0, 0, 0, 1,
      8, 0, 0, 0, 0, 58, 126, 155, 85, 0, 0, 0, 10, 73, 68, 65, 84, 120, 218, 99, 104, 0, 0,
      0, 130, 0, 129, 218, 69, 8, 59, 0, 0, 0, 0, 73, 69, 78, 68, 174, 66, 96, 130]"

definition pil_png :: pil where
  "pil_png =
     \<lparr>Image_open = (\<lambda>b. if b = png_gray
                         then Inr \<lparr>mode = ''L'', size_im = (1, 1), pixels = [[[128]]]\<rparr>
                         else Inl (Exception ''cannot identify image file'')),
      convert = convert pil_gray,
      resize = resize pil_gray\<rparr>"

definition gray_tensor :: tensor where
  "gray_tensor = [replicate 299 (replicate 299 [128 / 255, 128 / 255, 128 / 255])]"

text \<open>
  Random draws with the sample \<open>(0.1, 0.2, 0.3, 0.4)\<close>; a world whose model answers
  every tensor with the row \<open>(0.1, 0.70004, 0.09996, 0.1)\<close>; and a world whose model
  answers with the row \<open>(0.25, 0.5, 0.5, 0)\<close>, as a network with sigmoid outputs may.
  Both multiply exactly.
\<close>

definition g_fixed :: rng where
  "g_fixed =
     \<lparr>np_random_dirichlet = (\<lambda>alpha. [1 / 10, 2 / 10, 3 / 10, 4 / 10]),
      random_random = 1 / 2,
      random_randint = (\<lambda>a b. 1)\<rparr>"

definition w_test :: "nat world" where
  "w_test =
     \<lparr>runtimes = rt_legacy, pillow = pil_png, generators = g_fixed,
      model_predict = (\<lambda>h t. Inr [[1 / 10, 70004 / 100000, 9996 / 100000, 1 / 10]]),
      float_mul = (\<lambda>x y. x * y)\<rparr>"

definition w_sigmoid :: "nat world" where
  "w_sigmoid =
     \<lparr>runtimes = rt_legacy, pillow = pil_png, generators = g_fixed,
      model_predict = (\<lambda>h t. Inr [[1 / 4, 1 / 2, 1 / 2, 0]]),
      float_mul = (\<lambda>x y. x * y)\<rparr>"

text \<open>
  Requests: the bytes \<open>1, 2, 3, 4, 255\<close> as bare Base64 and as a data URL, the PNG file
  \<open>png_gray\<close> as bare Base64, an empty JSON
  object, an upload without a filename, a string that is no Base64, and two chat
  messages.
\<close>

definition req_bare :: request where
  "req_bare = \<lparr>files = Inr [], get_json = Inr (JDict [(''image'', JStr ''AQIDBP8='')])\<rparr>"

definition req_data_url :: request where
  "req_data_url =
     \<lparr>files = Inr [],
      get_json = Inr (JDict [(''image'', JStr ''data:image/png;base64,AQIDBP8='')])\<rparr>"

definition req_png :: request where
  "req_png =
     \<lparr>files = Inr [],
      get_json = Inr (JDict [(''image'',
        JStr ''iVBORw0KGgoAAAANSUhEUgAAAAEAAAABCAAAAAA6fptVAAAACklEQVR42mNoAAAAggCB2kUIOwAAAABJRU5ErkJggg=='')])\<rparr>"

definition req_empty_json :: request where
  "req_empty_json = \<lparr>files = Inr [], get_json = Inr (JDict [])\<rparr>"

definition req_unnamed_upload :: request where
  "req_unnamed_upload =
     \<lparr>files = Inr [(''image'', \<lparr>filename = [], read = Inr [1, 2, 3]\<rparr>)],
      get_json = Inl (Exception ''415 Unsupported Media Type'')\<rparr>"


definition req_hello :: request where
  "req_hello = \<lparr>files = Inr [], get_json = Inr (JDict [(''message'', JStr '' hello '')])\<rparr>"

definition req_blank :: request where
  "req_blank = \<lparr>files = Inr [], get_json = Inr (JDict [(''message'', JStr ''   '')])\<rparr>"

text \<open>A chat service that never answers in time.\<close>

definition cw_timeout :: chat_world where
  "cw_timeout =
     \<lparr>requests_post = (\<lambda>c. Inl (Timeout ''Read timed out. (read timeout=30)'')),
      py_repr = (\<lambda>v. ''None'')\<rparr>"

section \<open>Verification\<close>

subsection \<open>The model loader\<close>

lemma load_model_cached:
  "\<not> DEMO_MODE s \<Longrightarrow> model s = Some m \<Longrightarrow> load_model rt s = (Inr (Some m), s)"
  by (simp add: load_model_def)

lemma load_model_success_state:
  assumes "load_model rt s = (Inr (Some h), s')"
  shows "\<not> DEMO_MODE s' \<and> model s' = Some h"
  using assms
  by (auto simp: load_model_def Let_def emit_def
      split: if_splits option.splits sum.splits prod.splits)

lemma load_model_calls_cached:
  assumes "\<not> DEMO_MODE s" and "model s = Some h"
  shows "load_model_calls rts s = (replicate (length rts) (Inr (Some h)), s)"
proof (induction rts)
  case Nil
  show ?case by simp
next
  case (Cons rt rts)
  have "load_model rt s = (Inr (Some h), s)"
    using assms by (rule load_model_cached)
  with Cons show ?case by simp
qed

text \<open>
  C3, as the claim states it, fails: the standard runtime is not called only when the
  import of the legacy runtime fails. Here \<open>import tf_keras\<close> succeeds, the legacy load
  call raises \<open>ImportError\<close>, and \<open>load_model\<close> goes on to the standard runtime and
  returns its handle.
\<close>

theorem import_succeeds_counterexample:
  "import_tf_keras rt_no_h5py = None
   \<and> load_model rt_no_h5py s0 =
       (Inr (Some 9),
        s0\<lparr>model := Some 9,
           trace := [PathExists CONVERTED_MODEL_PATH, ImportShim, ShimLoad MODEL_PATH,
                     StdLoad MODEL_PATH]\<rparr>)"
  by (simp add: rt_no_h5py_def s0_def load_model_def emit_def)

text \<open>
  C3, amended. In real mode with no cached model, \<open>load_model\<close> checks for the converted
  artifact and uses its path when the file exists, the original path otherwise. It then
  tries the legacy runtime first: the import, and the load call when the import
  succeeds. The standard runtime is called exactly when this first attempt raises an
  \<open>ImportError\<close>, be it from the import or, the import having succeeded, from the legacy
  load call; that is not fatal, and the result of the standard runtime is then the
  result. Any other exception of the first attempt is raised as it is and leaves no
  model; when the standard runtime fails as well, its exception is the one raised.
\<close>

theorem load_model_fallback_chain:
  assumes "\<not> DEMO_MODE s" and "model s = None"
    and "p = (if path_exists rt CONVERTED_MODEL_PATH then CONVERTED_MODEL_PATH else MODEL_PATH)"
    and "load_model rt s = (r, s')"
  shows "new_events s s' =
           [PathExists CONVERTED_MODEL_PATH, ImportShim]
           @ (if import_tf_keras rt = None then [ShimLoad p] else [])
           @ (if \<exists>e. is_ImportError e \<and>
                     (import_tf_keras rt = Some e \<or>
                      import_tf_keras rt = None \<and> tf_keras_load_model rt p = Inl e)
              then [StdLoad p] else [])
       \<and> (case shim_attempt rt p of
            Inr m \<Rightarrow> r = Inr (Some m) \<and> model s' = Some m
          | Inl e \<Rightarrow>
              if is_ImportError e then
                (case tf_load_model rt p of
                   Inr m \<Rightarrow> r = Inr (Some m) \<and> model s' = Some m
                 | Inl e' \<Rightarrow> r = Inl e' \<and> model s' = None)
              else r = Inl e \<and> model s' = None)"
proof -
  have std: "(\<exists>e. is_ImportError e \<and>
                  (import_tf_keras rt = Some e \<or>
                   import_tf_keras rt = None \<and> tf_keras_load_model rt p = Inl e))
             \<longleftrightarrow> (case shim_attempt rt p of Inl e \<Rightarrow> is_ImportError e | Inr m \<Rightarrow> False)"
    by (auto simp: shim_attempt_def split: option.splits sum.splits)
  show ?thesis
    unfolding std using assms
    by (auto simp: load_model_def Let_def emit_def new_events_def shim_attempt_def
        split: if_splits option.splits sum.splits prod.splits)
qed

theorem load_model_fallback_chain_witness:
  "load_model rt_broken s0 =
     (Inl (Exception ''bad marshal data''),
      s0\<lparr>trace := [PathExists CONVERTED_MODEL_PATH, ImportShim, StdLoad MODEL_PATH]\<rparr>)
   \<and> new_events s0 (snd (load_model rt_broken s0)) =
       [PathExists CONVERTED_MODEL_PATH, ImportShim, StdLoad MODEL_PATH]
   \<and> fst (load_model rt_no_h5py s0) = Inr (Some 9)
   \<and> new_events s0 (snd (load_model rt_no_h5py s0)) =
       [PathExists CONVERTED_MODEL_PATH, ImportShim, ShimLoad MODEL_PATH, StdLoad MODEL_PATH]"
  using load_model_fallback_chain [of s0 MODEL_PATH rt_broken
      "fst (load_model rt_broken s0)" "snd (load_model rt_broken s0)"]
    load_model_fallback_chain [of s0 MODEL_PATH rt_no_h5py
      "fst (load_model rt_no_h5py s0)" "snd (load_model rt_no_h5py s0)"]
  by (simp add: rt_broken_def rt_no_h5py_def s0_def load_model_def emit_def shim_attempt_def)

text \<open>
  C4. Once a call of \<open>load_model\<close> has returned a handle, every later call, whatever the
  file system and the runtimes would answer, returns the same handle and leaves the
  state as it is: the trace gains no event, so there is no further file-system check,
  import or load call.
\<close>

theorem load_model_idempotent:
  assumes "load_model rt s = (Inr (Some h), s')"
  shows "load_model_calls rts s' = (replicate (length rts) (Inr (Some h)), s')
       \<and> new_events s' (snd (load_model_calls rts s')) = []"
  using load_model_success_state [OF assms]
  by (simp add: load_model_calls_cached new_events_def)

theorem load_model_idempotent_witness:
  "load_model rt_legacy s0 = (Inr (Some 7), s_loaded)
   \<and> load_model_calls [rt_broken, rt_legacy] s_loaded = ([Inr (Some 7), Inr (Some 7)], s_loaded)
   \<and> new_events s_loaded (snd (load_model_calls [rt_broken, rt_legacy] s_loaded)) = []"
proof -
  have first: "load_model rt_legacy s0 = (Inr (Some 7), s_loaded)"
    by (simp add: load_model_def rt_legacy_def s0_def s_loaded_def emit_def)
  from load_model_idempotent [OF first, of "[rt_broken, rt_legacy]"] first
  show ?thesis by (simp add: new_events_def del: load_model_calls.simps)
qed

subsection \<open>Base64: decoding an encoding gives the bytes back\<close>

lemma index_of_nth:
  "distinct xs \<Longrightarrow> n < length xs \<Longrightarrow> index_of (xs ! n) xs = Some n"
proof (induction xs arbitrary: n)
  case Nil
  then show ?case by simp
next
  case (Cons x xs)
  then show ?case by (cases n) auto
qed

lemma distinct_b64_alphabet: "distinct b64_alphabet"
  by (simp add: b64_alphabet_def)

lemma length_b64_alphabet: "length b64_alphabet = 64"
  by (simp add: b64_alphabet_def)

lemma b64_value_char: "n < 64 \<Longrightarrow> b64_value (b64_char n) = Some n"
  by (simp add: b64_value_def b64_char_def index_of_nth distinct_b64_alphabet length_b64_alphabet)

lemma b64_char_in_alphabet: "n < 64 \<Longrightarrow> b64_char n \<in> set b64_alphabet"
  by (simp add: b64_char_def length_b64_alphabet)

lemma b64_alphabet_plain:
  "c \<in> set b64_alphabet \<Longrightarrow> c \<noteq> CHR ''='' \<and> c \<noteq> CHR '','' \<and> is_ascii c"
  by (auto simp: b64_alphabet_def is_ascii_def)


lemma a2b_loop_data:
  assumes "n < 64"
  shows "a2b_loop q l p out (b64_char n # cs) =
          (if q = 0 then a2b_loop 1 n 0 out cs
           else if q = 1 then a2b_loop 2 (n mod 16) 0 (out @ [of_nat (l * 4 + n div 16)]) cs
           else if q = 2 then a2b_loop 3 (n mod 4) 0 (out @ [of_nat (l * 16 + n div 4)]) cs
           else a2b_loop 0 0 0 (out @ [of_nat (l * 64 + n)]) cs)"
proof -
  have "b64_char n \<noteq> CHR ''=''"
    using b64_alphabet_plain [OF b64_char_in_alphabet [OF assms]] by simp
  then show ?thesis
    by (simp add: b64_value_char [OF assms])
qed

lemma a2b_loop_pad:
  "a2b_loop q l p out (CHR ''='' # cs) =
     (if 2 \<le> q then (if 4 \<le> q + (p + 1) then Inr out else a2b_loop q l (p + 1) out cs)
      else a2b_loop q l p out cs)"
  by simp

lemma sextet_bounds:
  fixes x y z :: nat
  assumes "x < 256" and "y < 256" and "z < 256"
  shows "x div 4 < 64" and "x mod 4 * 16 < 64" and "x mod 4 * 16 + y div 16 < 64"
    and "y mod 16 * 4 < 64" and "y mod 16 * 4 + z div 64 < 64" and "z mod 64 < 64"
  using assms by arith+

lemma regroup_first:
  fixes x y :: nat
  assumes "y < 256"
  shows "x div 4 * 4 + (x mod 4 * 16 + y div 16) div 16 = x"
  using assms by (simp add: div_mult2_eq [symmetric])

lemma regroup_second:
  fixes x y z :: nat
  assumes "y < 256" and "z < 256"
  shows "(x mod 4 * 16 + y div 16) mod 16 * 16 + (y mod 16 * 4 + z div 64) div 4 = y"
  using assms by (simp add: div_mult2_eq [symmetric] less_mult_imp_div_less)

lemma regroup_third:
  fixes y z :: nat
  assumes "z < 256"
  shows "(y mod 16 * 4 + z div 64) mod 4 * 64 + z mod 64 = z"
  using assms by (simp add: less_mult_imp_div_less)

lemma regroup_first_pad:
  fixes x :: nat
  shows "x div 4 * 4 + x mod 4 * 16 div 16 = x"
  by simp

lemma regroup_second_pad:
  fixes x y :: nat
  assumes "y < 256"
  shows "(x mod 4 * 16 + y div 16) mod 16 * 16 + y mod 16 * 4 div 4 = y"
  using assms by (simp add: less_mult_imp_div_less)

lemma unat_byte: "unat (a :: byte) < 256"
  using unsigned_less [of a] by simp

lemma sextets_1:
  fixes a :: byte
  shows "unat a div 4 < 64" and "unat a mod 4 * 16 < 64"
    and "of_nat (unat a div 4 * 4 + unat a mod 4 * 16 div 16) = a"
proof -
  show "unat a div 4 < 64" and "unat a mod 4 * 16 < 64"
    using sextet_bounds [of "unat a" "unat a" "unat a"] unat_byte [of a] by simp_all
  show "of_nat (unat a div 4 * 4 + unat a mod 4 * 16 div 16) = a"
    by (simp only: regroup_first_pad of_nat_unat ucast_id)
qed

lemma sextets_2:
  fixes a b :: byte
  shows "unat a mod 4 * 16 + unat b div 16 < 64" and "unat b mod 16 * 4 < 64"
    and "of_nat (unat a div 4 * 4 + (unat a mod 4 * 16 + unat b div 16) div 16) = a"
    and "of_nat ((unat a mod 4 * 16 + unat b div 16) mod 16 * 16 + unat b mod 16 * 4 div 4) = b"
proof -
  show "unat a mod 4 * 16 + unat b div 16 < 64" and "unat b mod 16 * 4 < 64"
    using sextet_bounds [of "unat a" "unat b" "unat b"] unat_byte [of a] unat_byte [of b]
    by simp_all
  show "of_nat (unat a div 4 * 4 + (unat a mod 4 * 16 + unat b div 16) div 16) = a"
    by (simp only: regroup_first [OF unat_byte] of_nat_unat ucast_id)
  show "of_nat ((unat a mod 4 * 16 + unat b div 16) mod 16 * 16 + unat b mod 16 * 4 div 4) = b"
    by (simp only: regroup_second_pad [OF unat_byte] of_nat_unat ucast_id)
qed

lemma sextets_3:
  fixes a b c :: byte
  shows "unat b mod 16 * 4 + unat c div 64 < 64" and "unat c mod 64 < 64"
    and "of_nat ((unat a mod 4 * 16 + unat b div 16) mod 16 * 16
                 + (unat b mod 16 * 4 + unat c div 64) div 4) = b"
    and "of_nat ((unat b mod 16 * 4 + unat c div 64) mod 4 * 64 + unat c mod 64) = c"
proof -
  show "unat b mod 16 * 4 + unat c div 64 < 64" and "unat c mod 64 < 64"
    using sextet_bounds [of "unat b" "unat b" "unat c"] unat_byte [of b] unat_byte [of c]
    by simp_all
  show "of_nat ((unat a mod 4 * 16 + unat b div 16) mod 16 * 16
                 + (unat b mod 16 * 4 + unat c div 64) div 4) = b"
    by (simp only: regroup_second [OF unat_byte unat_byte] of_nat_unat ucast_id)
  show "of_nat ((unat b mod 16 * 4 + unat c div 64) mod 4 * 64 + unat c mod 64) = c"
    by (simp only: regroup_third [OF unat_byte] of_nat_unat ucast_id)
qed

lemma a2b_two:
  assumes "v0 < 64" and "v1 < 64"
  shows "a2b_loop 0 l p out (b64_char v0 # b64_char v1 # cs) =
           a2b_loop 2 (v1 mod 16) 0 (out @ [of_nat (v0 * 4 + v1 div 16)]) cs"
  by (simp add: a2b_loop_data assms del: a2b_loop.simps(2))

lemma a2b_three:
  assumes "v0 < 64" and "v1 < 64" and "v2 < 64"
  shows "a2b_loop 0 l p out (b64_char v0 # b64_char v1 # b64_char v2 # cs) =
           a2b_loop 3 (v2 mod 4) 0
             (out @ [of_nat (v0 * 4 + v1 div 16), of_nat (v1 mod 16 * 16 + v2 div 4)]) cs"
  by (simp add: a2b_two a2b_loop_data assms del: a2b_loop.simps(2))

lemma a2b_four:
  assumes "v0 < 64" and "v1 < 64" and "v2 < 64" and "v3 < 64"
  shows "a2b_loop 0 l p out (b64_char v0 # b64_char v1 # b64_char v2 # b64_char v3 # cs) =
           a2b_loop 0 0 0
             (out @ [of_nat (v0 * 4 + v1 div 16), of_nat (v1 mod 16 * 16 + v2 div 4),
                     of_nat (v2 mod 4 * 64 + v3)]) cs"
  by (simp add: a2b_three a2b_loop_data assms del: a2b_loop.simps(2))

lemma a2b_loop_b64encode:
  "a2b_loop 0 l p out (b64encode bs) = Inr (out @ bs)"
proof (induction bs arbitrary: l p out rule: b64encode.induct)
  case 1
  show ?case by simp
next
  case (2 a)
  have "a2b_loop 0 l p out (b64encode [a]) =
          a2b_loop 2 (unat a mod 4 * 16 mod 16) 0
            (out @ [of_nat (unat a div 4 * 4 + unat a mod 4 * 16 div 16)]) ''==''"
    by (simp only: b64encode.simps a2b_two [OF sextets_1(1) sextets_1(2)])
  also have "\<dots> = Inr (out @ [a])"
    by (simp only: sextets_1(3)) (simp add: a2b_loop_pad del: a2b_loop.simps(2))
  finally show ?case .
next
  case (3 a b)
  have "a2b_loop 0 l p out (b64encode [a, b]) =
          a2b_loop 3 (unat b mod 16 * 4 mod 4) 0
            (out @ [of_nat (unat a div 4 * 4 + (unat a mod 4 * 16 + unat b div 16) div 16),
                    of_nat ((unat a mod 4 * 16 + unat b div 16) mod 16 * 16
                            + unat b mod 16 * 4 div 4)]) ''=''"
    by (simp only: b64encode.simps a2b_three [OF sextets_1(1) sextets_2(1) sextets_2(2)])
  also have "\<dots> = Inr (out @ [a, b])"
    by (simp only: sextets_2(3) sextets_2(4)) (simp add: a2b_loop_pad del: a2b_loop.simps(2))
  finally show ?case .
next
  case (4 a b c bs)
  have "a2b_loop 0 l p out (b64encode (a # b # c # bs)) =
          a2b_loop 0 0 0
            (out @ [of_nat (unat a div 4 * 4 + (unat a mod 4 * 16 + unat b div 16) div 16),
                    of_nat ((unat a mod 4 * 16 + unat b div 16) mod 16 * 16
                            + (unat b mod 16 * 4 + unat c div 64) div 4),
                    of_nat ((unat b mod 16 * 4 + unat c div 64) mod 4 * 64 + unat c mod 64)])
            (b64encode bs)"
    by (simp only: b64encode.simps append_Cons append_Nil
        a2b_four [OF sextets_1(1) sextets_2(1) sextets_3(1) sextets_3(2)])
  also have "\<dots> = a2b_loop 0 0 0 (out @ [a, b, c]) (b64encode bs)"
    by (simp only: sextets_2(3) sextets_3(3) sextets_3(4))
  also have "\<dots> = Inr ((out @ [a, b, c]) @ bs)"
    by (rule "4.IH")
  finally show ?case by simp
qed

lemma b64encode_chars:
  "x \<in> set (b64encode bs) \<Longrightarrow> x \<noteq> CHR '','' \<and> is_ascii x"
proof (induction bs rule: b64encode.induct)
  case 1
  then show ?case by simp
next
  case (2 a)
  then show ?case
    using b64_alphabet_plain [OF b64_char_in_alphabet [OF sextets_1(1) [of a]]]
      b64_alphabet_plain [OF b64_char_in_alphabet [OF sextets_1(2) [of a]]]
    by (auto simp: is_ascii_def)
next
  case (3 a b)
  then show ?case
    using b64_alphabet_plain [OF b64_char_in_alphabet [OF sextets_1(1) [of a]]]
      b64_alphabet_plain [OF b64_char_in_alphabet [OF sextets_2(1) [of a b]]]
      b64_alphabet_plain [OF b64_char_in_alphabet [OF sextets_2(2) [of b]]]
    by (auto simp: is_ascii_def)
next
  case (4 a b c bs)
  then show ?case
    using b64_alphabet_plain [OF b64_char_in_alphabet [OF sextets_1(1) [of a]]]
      b64_alphabet_plain [OF b64_char_in_alphabet [OF sextets_2(1) [of a b]]]
      b64_alphabet_plain [OF b64_char_in_alphabet [OF sextets_3(1) [of b c]]]
      b64_alphabet_plain [OF b64_char_in_alphabet [OF sextets_3(2) [of c]]]
    by (auto simp: is_ascii_def)
qed

lemma b64decode_b64encode: "b64decode (JStr (b64encode bs)) = Inr bs"
  using b64encode_chars [of _ bs] a2b_loop_b64encode [of 0 0 "[]" bs]
  by (simp add: list_all_iff)

subsection \<open>Input extraction\<close>

lemma is_substr_single: "is_substr [c] s \<longleftrightarrow> c \<in> set s"
  by (induction s) auto

lemma split_on_no_sep: "c \<notin> set q \<Longrightarrow> split_on c q = [q]"
  by (induction q) auto

lemma split_on_first: "c \<notin> set p \<Longrightarrow> split_on c (p @ c # q) = p # split_on c q"
  by (induction p) auto

lemma py_split_1_prefixed:
  assumes "CHR '','' \<notin> set p" and "CHR '','' \<notin> set q"
  shows "py_split_1 (JStr (p @ CHR '','' # q)) = Inr (JStr q)"
  using assms by (simp add: split_on_first split_on_no_sep)

lemma comma_free_b64encode: "CHR '','' \<notin> set (b64encode bs)"
  using b64encode_chars [of "CHR '',''" bs] by blast

lemma data_url_split:
  "data_url ty payload = (''data:'' @ ty @ '';base64'') @ CHR '','' # payload"
  by (simp add: data_url_def)

lemma extract_json_image:
  assumes "files req = Inr fs" and "map_of fs ''image'' = None"
    and "get_json req = Inr (JDict kvs)" and "map_of kvs ''image'' = Some image_data"
  shows "extract_image req =
           bind_exc (py_in '','' image_data) (\<lambda>has_comma.
           bind_exc (if has_comma then py_split_1 image_data else Inr image_data) (\<lambda>image_data.
           bind_exc (b64decode image_data) (\<lambda>image_bytes. Inr (Inr image_bytes))))"
proof -
  from assms(4) have "kvs \<noteq> []" by auto
  with assms show ?thesis
    by (simp add: extract_image_def bind_exc_def)
qed

lemma extract_bare:
  assumes "files req = Inr fs" and "map_of fs ''image'' = None"
    and "get_json req = Inr (JDict kvs)"
    and "map_of kvs ''image'' = Some (JStr (b64encode b))"
  shows "extract_image req = Inr (Inr b)"
  by (simp add: extract_json_image [OF assms] bind_exc_def is_substr_single
      comma_free_b64encode b64decode_b64encode del: b64decode.simps)


lemma b64encode_sample: "b64encode [1, 2, 3, 4, 255] = ''AQIDBP8=''"
  by (simp add: b64_char_def b64_alphabet_def)

lemma extract_req_bare: "extract_image req_bare = Inr (Inr [1, 2, 3, 4, 255])"
  by (rule extract_bare [where fs = "[]" and kvs = "[(''image'', JStr ''AQIDBP8='')]"
        and b = "[1, 2, 3, 4, 255]"])
    (simp_all add: req_bare_def b64encode_sample del: b64encode.simps)

lemma b64encode_png:
  "b64encode png_gray =
     ''iVBORw0KGgoAAAANSUhEUgAAAAEAAAABCAAAAAA6fptVAAAACklEQVR42mNoAAAAggCB2kUIOwAAAABJRU5ErkJggg==''"
  by (simp add: png_gray_def b64_char_def b64_alphabet_def)

lemma extract_req_png: "extract_image req_png = Inr (Inr png_gray)"
  by (rule extract_bare [where fs = "[]" and b = png_gray
        and kvs = "[(''image'', JStr (b64encode png_gray))]"])
    (simp_all add: req_png_def b64encode_png del: b64encode.simps)

text \<open>
  C9. Take any bytes \<open>b\<close> and any media type without a comma. A JSON request without an
  uploaded \<open>image\<close> file whose \<open>image\<close> field is the data URL of the Base64 encoding of
  \<open>b\<close>, and one whose \<open>image\<close> field is that encoding alone, both yield exactly the
  bytes \<open>b\<close>: the part before the comma is dropped, and the bare encoding, which has no
  comma, is decoded as it is.
\<close>

theorem data_url_prefix_is_stripped:
  assumes "CHR '','' \<notin> set ty"
    and "files req = Inr fs" and "map_of fs ''image'' = None"
    and "get_json req = Inr (JDict kvs)"
    and "map_of kvs ''image'' = Some (JStr (data_url ty (b64encode b)))"
    and "files req' = Inr fs'" and "map_of fs' ''image'' = None"
    and "get_json req' = Inr (JDict kvs')"
    and "map_of kvs' ''image'' = Some (JStr (b64encode b))"
  shows "extract_image req = Inr (Inr b) \<and> extract_image req' = Inr (Inr b)"
proof -
  have "CHR '','' \<notin> set (''data:'' @ ty @ '';base64'')"
    using assms(1) by simp
  then have split: "py_split_1 (JStr (data_url ty (b64encode b))) = Inr (JStr (b64encode b))"
    unfolding data_url_split by (rule py_split_1_prefixed) (rule comma_free_b64encode)
  have comma: "is_substr '','' (data_url ty (b64encode b))"
    by (simp add: is_substr_single data_url_def)
  have prefixed: "extract_image req = Inr (Inr b)"
    by (simp add: extract_json_image [OF assms(2-5)] bind_exc_def comma split
        b64decode_b64encode del: b64decode.simps py_split_1.simps)
  have bare: "extract_image req' = Inr (Inr b)"
    by (rule extract_bare [OF assms(6-9)])
  from prefixed bare show ?thesis by simp
qed

theorem data_url_prefix_is_stripped_witness:
  "extract_image req_data_url = Inr (Inr [1, 2, 3, 4, 255])
   \<and> extract_image req_bare = Inr (Inr [1, 2, 3, 4, 255])"
  by (rule data_url_prefix_is_stripped [where ty = "''image/png''" and fs = "[]" and fs' = "[]"
        and b = "[1, 2, 3, 4, 255]"
        and kvs = "[(''image'', JStr ''data:image/png;base64,AQIDBP8='')]"
        and kvs' = "[(''image'', JStr ''AQIDBP8='')]"])
    (simp_all add: req_data_url_def req_bare_def data_url_def b64encode_sample
      del: b64encode.simps)

subsection \<open>The handler of \<open>/predict\<close>: rejected requests and caught exceptions\<close>

lemma extract_req_unnamed_upload:
  "extract_image req_unnamed_upload =
     Inr (Inl (jsonify [(''error'', JStr ''No image selected'')] 400))"
  by (simp add: req_unnamed_upload_def extract_image_def bind_exc_def)


text \<open>
  C7, as the claim states it, fails: for an upload field \<open>image\<close> with an empty filename
  the handler answers 400 with the error body \<open>No image selected\<close>, which is not
  \<open>No image provided\<close>.
\<close>

theorem empty_filename_counterexample:
  "fst (predict w_test req_unnamed_upload s0) = jsonify [(''error'', JStr ''No image selected'')] 400
   \<and> fst (predict w_test req_unnamed_upload s0) \<noteq> jsonify [(''error'', JStr ''No image provided'')] 400"
  by (simp add: predict_def predict_try_def extract_req_unnamed_upload jsonify_def)

text \<open>
  C7, amended. Take a request whose uploaded files can be read. When they hold no field
  \<open>image\<close>, and \<open>get_json()\<close> returns a value that is falsy or in which \<open>'image'\<close> does
  not occur, the handler answers 400 with the error body \<open>No image provided\<close>. When
  they hold a field \<open>image\<close> with an empty filename, it answers 400 with the error body
  \<open>No image selected\<close>. In both cases the state is unchanged.
\<close>

theorem no_image_is_rejected:
  assumes "files req = Inr fs"
  shows "(map_of fs ''image'' = None \<longrightarrow> get_json req = Inr data \<longrightarrow>
            (\<not> truthy data \<or> py_in ''image'' data = Inr False) \<longrightarrow>
            predict w req s = (jsonify [(''error'', JStr ''No image provided'')] 400, s))
       \<and> (map_of fs ''image'' = Some f \<longrightarrow> filename f = [] \<longrightarrow>
            predict w req s = (jsonify [(''error'', JStr ''No image selected'')] 400, s))"
  using assms
  by (auto simp: predict_def predict_try_def extract_image_def bind_exc_def)

theorem no_image_is_rejected_witness:
  "predict w_test req_empty_json s0 = (jsonify [(''error'', JStr ''No image provided'')] 400, s0)
   \<and> predict w_test req_unnamed_upload s0 =
       (jsonify [(''error'', JStr ''No image selected'')] 400, s0)"
  using no_image_is_rejected [of req_empty_json "[]" "JDict []" w_test s0]
    no_image_is_rejected [of req_unnamed_upload "[(''image'', \<lparr>filename = [], read = Inr [1, 2, 3]\<rparr>)]"
      _ w_test s0 "\<lparr>filename = [], read = Inr [1, 2, 3]\<rparr>"]
  by (simp add: req_empty_json_def req_unnamed_upload_def)



subsection \<open>The tensor preprocessor\<close>

lemma rgb_tensor:
  assumes "rgb_image im" and "size_im im = (w, h)"
  shows "has_shape 1 h w 3 [map (map (map (\<lambda>v. real v / 255))) (pixels im)]"
    and "values_in 0 1 [map (map (map (\<lambda>v. real v / 255))) (pixels im)]"
  using assms
  by (auto simp: rgb_image_def has_shape_def values_in_def list_all_iff)

lemma pil_gray_contract: "pil_contract pil_gray"
  by (auto simp: pil_contract_def pil_gray_def rgb_image_def list_all_iff split: if_splits)

lemma preprocess_gray: "b \<noteq> [] \<Longrightarrow> preprocess_image pil_gray b = Inr gray_tensor"
  by (simp add: preprocess_image_def pil_gray_def bind_exc_def gray_tensor_def)

lemma preprocess_png: "preprocess_image pil_png png_gray = Inr gray_tensor"
  by (simp add: preprocess_image_def pil_png_def pil_gray_def bind_exc_def gray_tensor_def)

text \<open>
  C2. Let Pillow keep what it documents (\<open>pil_contract\<close>), and let the bytes decode to
  a valid image: \<open>Image.open\<close> returns an image, the conversion to \<open>RGB\<close>, applied
  exactly when the mode is not \<open>RGB\<close> (so to every image that has not three channels),
  returns, and the resizing to (299, 299), whatever the size before, returns the image
  \<open>out\<close>. Then \<open>preprocess_image\<close> returns the pixel values of \<open>out\<close>, each divided
  by 255, under one leading dimension of size 1; this tensor has the shape
  \<open>[1, 299, 299, 3]\<close> and all its values are in \<open>[0, 1]\<close>.
\<close>

theorem preprocess_image_tensor:
  assumes "pil_contract lib"
    and "Image_open lib image_data = Inr im"
    and "(if mode im \<noteq> ''RGB'' then convert lib im ''RGB'' else Inr im) = Inr rgb"
    and "resize lib rgb (299, 299) = Inr out"
  shows "preprocess_image lib image_data = Inr [map (map (map (\<lambda>v. real v / 255))) (pixels out)]
       \<and> has_shape 1 299 299 3 [map (map (map (\<lambda>v. real v / 255))) (pixels out)]
       \<and> values_in 0 1 [map (map (map (\<lambda>v. real v / 255))) (pixels out)]"
proof -
  have rgb: "rgb_image rgb"
  proof (cases "mode im = ''RGB''")
    case True
    with assms(3) have "rgb = im" by simp
    with assms(1,2) True show ?thesis unfolding pil_contract_def by blast
  next
    case False
    with assms(3) have "convert lib im ''RGB'' = Inr rgb" by simp
    with assms(1) show ?thesis unfolding pil_contract_def by blast
  qed
  with assms(1,4) have out: "rgb_image out" "size_im out = (299, 299)"
    unfolding pil_contract_def by blast+
  have "preprocess_image lib image_data = Inr [map (map (map (\<lambda>v. real v / 255))) (pixels out)]"
    using assms(2,3,4) by (simp add: preprocess_image_def bind_exc_def Let_def split: if_splits)
  with rgb_tensor [OF out] show ?thesis by simp
qed

theorem preprocess_image_tensor_witness:
  "preprocess_image pil_gray [1, 2, 3] = Inr gray_tensor
   \<and> has_shape 1 299 299 3 gray_tensor \<and> values_in 0 1 gray_tensor"
  using preprocess_image_tensor [OF pil_gray_contract, of "[1, 2, 3]"
      "\<lparr>mode = ''L'', size_im = (2, 1), pixels = [[[5], [6]]]\<rparr>"
      "\<lparr>mode = ''RGB'', size_im = (2, 1), pixels = [[[128, 128, 128], [128, 128, 128]]]\<rparr>"
      "\<lparr>mode = ''RGB'', size_im = (299, 299),
        pixels = replicate 299 (replicate 299 [128, 128, 128])\<rparr>"]
  by (simp add: pil_gray_def gray_tensor_def numeral_2_eq_2)

subsection \<open>Classification results\<close>

lemma argmax_less: "xs \<noteq> [] \<Longrightarrow> argmax xs < length xs"
  by (induction xs rule: argmax.induct) (auto simp: Let_def)

lemma argmax_greatest: "j < length xs \<Longrightarrow> xs ! j \<le> xs ! argmax xs"
proof (induction xs arbitrary: j rule: argmax.induct)
  case 1
  then show ?case by simp
next
  case (2 x)
  then show ?case by simp
next
  case (3 x y ys)
  show ?case
  proof (cases j)
    case 0
    then show ?thesis by (simp add: Let_def)
  next
    case (Suc k)
    with "3.prems" have "k < length (y # ys)" by simp
    then have "(y # ys) ! k \<le> (y # ys) ! argmax (y # ys)" by (rule "3.IH")
    with Suc show ?thesis by (auto simp: Let_def)
  qed
qed

lemma sum_list_divided: "sum_list (map (\<lambda>x. x / c) xs) = sum_list xs / (c :: real)"
  by (induction xs) (simp_all add: add_divide_distrib)

lemma sum_list_boost:
  "i < length xs \<Longrightarrow> sum_list (xs[i := xs ! i + d]) = sum_list xs + (d :: real)"
proof (induction xs arbitrary: i)
  case Nil
  then show ?case by simp
next
  case (Cons x xs)
  then show ?case by (cases i) simp_all
qed

lemma dirichlet_parameter: "replicate 4 x = [x, x, x, x]"
  by (simp add: numeral_eq_Suc)

lemma py_round_near:
  "\<bar>of_int (py_round y) - y\<bar> \<le> 1 / 2"
  "\<bar>of_int (py_round y) - y\<bar> = 1 / 2 \<Longrightarrow> even (py_round y)"
proof -
  define f where "f = \<lfloor>y\<rfloor>"
  define d where "d = y - of_int f"
  have d: "0 \<le> d" "d < 1" unfolding d_def f_def by linarith+
  have y: "y = of_int f + d" unfolding d_def by simp
  consider "d < 1 / 2" | "1 / 2 < d" | "d = 1 / 2" by linarith
  then have "\<bar>of_int (py_round y) - y\<bar> \<le> 1 / 2
           \<and> (\<bar>of_int (py_round y) - y\<bar> = 1 / 2 \<longrightarrow> even (py_round y))"
  proof cases
    case 1
    then have "py_round y = f" by (simp add: py_round_def Let_def f_def d_def)
    with 1 d y show ?thesis by simp
  next
    case 2
    then have "py_round y = f + 1" by (simp add: py_round_def Let_def f_def d_def)
    with 2 d y show ?thesis by simp
  next
    case 3
    then have "py_round y = (if even f then f else f + 1)"
      by (simp add: py_round_def Let_def f_def d_def)
    with 3 y show ?thesis by simp
  qed
  then show "\<bar>of_int (py_round y) - y\<bar> \<le> 1 / 2"
    and "\<bar>of_int (py_round y) - y\<bar> = 1 / 2 \<Longrightarrow> even (py_round y)" by simp_all
qed

lemma round2_rounds: "rounded_to_2_places x (round2 x)"
proof -
  let ?k = "py_round (x * 100)"
  have dist: "\<bar>round2 x - x\<bar> = \<bar>of_int ?k - x * 100\<bar> / 100"
    by (simp add: round2_def field_simps abs_divide) 
  have "\<bar>round2 x - x\<bar> \<le> 1 / 200"
    using py_round_near(1) [of "x * 100"] unfolding dist by simp
  moreover have "even ?k" if "\<bar>round2 x - x\<bar> = 1 / 200"
    using that py_round_near(2) [of "x * 100"] unfolding dist by simp
  ultimately show ?thesis
    unfolding rounded_to_2_places_def by (intro exI [of _ ?k]) (simp add: round2_def)
qed

lemma four_entries:
  assumes "length xs = 4"
  obtains a b c d where "xs = [a, b, c, d]"
proof -
  from assms obtain a xs1 where "xs = a # xs1" "length xs1 = 3"
    by (cases xs) simp_all
  moreover then obtain b xs2 where "xs1 = b # xs2" "length xs2 = 2"
    by (cases xs1) simp_all
  moreover then obtain c xs3 where "xs2 = c # xs3" "length xs3 = 1"
    by (cases xs2) simp_all
  moreover then obtain d where "xs3 = [d]"
    by (cases xs3) simp_all
  ultimately show ?thesis using that by simp
qed

lemma percentages_sum:
  assumes "probability_vector xs" and "float_mul_accurate fm"
  shows "\<bar>sum_list (map (\<lambda>p. fm p 100) xs) - 100\<bar> \<le> 1 / 100"
proof -
  from assms(1) have "length xs = 4" by (simp add: probability_vector_def)
  then obtain a b c d where xs: "xs = [a, b, c, d]" by (rule four_entries)
  from assms(1) have pos: "0 \<le> a" "0 \<le> b" "0 \<le> c" "0 \<le> d"
    and total: "\<bar>a + b + c + d - 1\<bar> \<le> 1 / 20000"
    by (simp_all add: probability_vector_def xs add.assoc)
  from pos total have small: "\<bar>a\<bar> \<le> 2" "\<bar>b\<bar> \<le> 2" "\<bar>c\<bar> \<le> 2" "\<bar>d\<bar> \<le> 2"
    by linarith+
  from assms(2) small
  have "\<bar>fm a 100 - a * 100\<bar> \<le> 1 / 10 ^ 9" "\<bar>fm b 100 - b * 100\<bar> \<le> 1 / 10 ^ 9"
    "\<bar>fm c 100 - c * 100\<bar> \<le> 1 / 10 ^ 9" "\<bar>fm d 100 - d * 100\<bar> \<le> 1 / 10 ^ 9"
    unfolding float_mul_accurate_def by blast+
  with total
  have "\<bar>fm a 100 + fm b 100 + fm c 100 + fm d 100 - 100\<bar> \<le> 1 / 100"
    unfolding abs_le_iff by simp
  then show ?thesis
    unfolding xs by (simp add: add.assoc)
qed

lemma probability_vector_argmax: "probability_vector xs \<Longrightarrow> argmax xs < 4"
proof -
  assume "probability_vector xs"
  then have "length xs = 4" by (simp add: probability_vector_def)
  moreover from this have "xs \<noteq> []" by auto
  ultimately show ?thesis using argmax_less [of xs] by simp
qed

lemma boosted_probability_vector:
  assumes "probability_vector d" and "i < 4"
  shows "probability_vector (map (\<lambda>x. x / sum_list (d[i := d ! i + 0.5])) (d[i := d ! i + 0.5]))"
proof -
  let ?b = "d[i := d ! i + 0.5]"
  from assms have i: "i < length d" and len: "length d = 4"
    and pos: "\<forall>x \<in> set d. 0 \<le> x" and total: "\<bar>sum_list d - 1\<bar> \<le> 1 / 20000"
    by (simp_all add: probability_vector_def list_all_iff)
  have S: "sum_list ?b = sum_list d + 1 / 2"
    using sum_list_boost [OF i, of "0.5"] by simp
  with total have Spos: "0 < sum_list ?b" by linarith
  from pos i have "0 \<le> d ! i" by simp
  then have "\<forall>x \<in> set ?b. 0 \<le> x"
    using pos set_update_subset_insert [of d i "d ! i + 0.5"] by auto
  with Spos have "\<forall>x \<in> set ?b. 0 \<le> x / sum_list ?b" by simp
  moreover have "sum_list (map (\<lambda>x. x / sum_list ?b) ?b) = 1"
    using Spos by (simp add: sum_list_divided)
  ultimately show ?thesis
    using len by (simp add: probability_vector_def list_all_iff)
qed

lemma demo_probs_vector:
  assumes "probability_vector (np_random_dirichlet g [2, 2, 2, 2])"
    and "random_randint g 0 3 < 4"
  shows "\<exists>probs. demo_probs g = Inr probs \<and> probability_vector probs"
proof (cases "random_random g > 0.3")
  case True
  from assms have "random_randint g 0 3 < length (np_random_dirichlet g [2, 2, 2, 2])"
    by (simp add: probability_vector_def)
  with True boosted_probability_vector [OF assms] show ?thesis
    by (simp add: demo_probs_def dirichlet_parameter Let_def)
next
  case False
  with assms(1) show ?thesis
    by (simp add: demo_probs_def dirichlet_parameter Let_def)
qed

lemma classify:
  assumes "probs \<noteq> []" and "argmax probs < 4"
  shows "np_argmax probs = Inr (argmax probs)"
    and "getitem CLASS_LABELS (argmax probs) msg = Inr (CLASS_LABELS ! argmax probs)"
  using assms by (simp_all add: np_argmax_def getitem_def CLASS_LABELS_def)

lemma predict_demo:
  assumes "extract_image req = Inr (Inr image_bytes)" and "DEMO_MODE s"
    and "demo_probs (generators w) = Inr probs" and "probs \<noteq> []" and "argmax probs < 4"
  shows "predict w req s =
           (jsonify [(''success'', JBool True), (''demo_mode'', JBool True),
                     (''prediction'', JStr (CLASS_LABELS ! argmax probs)),
                     (''confidence'', JFloat (float_mul w (probs ! argmax probs) 100)),
                     (''probabilities'',
                      JDict (zip CLASS_LABELS (map (\<lambda>p. JFloat (float_mul w p 100)) probs)))]
              200, s)"
  using assms(1-3) classify [OF assms(4,5)]
  by (simp add: predict_def predict_try_def demo_predict_def bind_exc_def percentages_def)

lemma predict_real:
  assumes "extract_image req = Inr (Inr image_bytes)" and "\<not> DEMO_MODE s"
    and "load_model (runtimes w) s = (Inr (Some h), s')"
    and "preprocess_image (pillow w) image_bytes = Inr t"
    and "model_predict w h t = Inr (row # rows)"
    and "row \<noteq> []" and "argmax row < 4"
  shows "predict w req s =
           (jsonify [(''success'', JBool True),
                     (''prediction'', JStr (CLASS_LABELS ! argmax row)),
                     (''confidence'', JFloat (round2 (float_mul w (row ! argmax row) 100))),
                     (''probabilities'',
                      JDict (zip CLASS_LABELS (map (\<lambda>p. JFloat (float_mul w p 100)) row)))]
              200, s')"
  using assms(1-5) classify [OF assms(6,7)]
  by (simp add: predict_def predict_try_def bind_exc_def getitem_def Let_def percentages_def)

lemma unclassified:
  assumes "xs = [] \<or> 4 \<le> argmax xs"
  shows "\<exists>e. bind_exc (np_argmax xs) (\<lambda>i. bind_exc (getitem CLASS_LABELS i msg) (f i)) = Inl e"
proof (cases "xs = []")
  case True
  then show ?thesis by (simp add: np_argmax_def bind_exc_def)
next
  case False
  with assms have "4 \<le> argmax xs" by simp
  with False show ?thesis
    by (simp add: np_argmax_def bind_exc_def getitem_def CLASS_LABELS_def)
qed

lemma predict_unclassified:
  assumes "extract_image req = Inr (Inr image_bytes)" and "xs = [] \<or> 4 \<le> argmax xs"
  shows "DEMO_MODE s \<Longrightarrow> demo_probs (generators w) = Inr xs \<Longrightarrow>
           status (fst (predict w req s)) = 500"
    and "\<not> DEMO_MODE s \<Longrightarrow> load_model (runtimes w) s = (Inr (Some h), s') \<Longrightarrow>
           preprocess_image (pillow w) image_bytes = Inr t \<Longrightarrow>
           model_predict w h t = Inr (xs # rows) \<Longrightarrow>
           status (fst (predict w req s)) = 500"
proof -
  assume "DEMO_MODE s" and "demo_probs (generators w) = Inr xs"
  moreover obtain e
    where "bind_exc (np_argmax xs) (\<lambda>predicted_idx.
             bind_exc (getitem CLASS_LABELS predicted_idx ''list index out of range'') (\<lambda>label.
               Inr [(''prediction'', JStr label),
                    (''confidence'', JFloat (float_mul w (xs ! predicted_idx) 100)),
                    (''probabilities'', JDict (percentages (float_mul w) xs))])) = Inl e"
    using unclassified [OF assms(2), of "''list index out of range''"
        "\<lambda>predicted_idx label.
           Inr [(''prediction'', JStr label),
                (''confidence'', JFloat (float_mul w (xs ! predicted_idx) 100)),
                (''probabilities'', JDict (percentages (float_mul w) xs))]"]
    by blast
  ultimately have "predict w req s = (error_500 e, s)"
    using assms(1) by (simp add: predict_def predict_try_def demo_predict_def bind_exc_def)
  then show "status (fst (predict w req s)) = 500"
    by (simp add: error_500_def jsonify_def)
next
  assume "\<not> DEMO_MODE s" and "load_model (runtimes w) s = (Inr (Some h), s')"
    and "preprocess_image (pillow w) image_bytes = Inr t"
    and "model_predict w h t = Inr (xs # rows)"
  moreover obtain e
    where "bind_exc (np_argmax xs) (\<lambda>predicted_class_idx.
             bind_exc (getitem CLASS_LABELS predicted_class_idx ''list index out of range'')
               (\<lambda>predicted_class.
                 let confidence = float_mul w (xs ! predicted_class_idx) 100;
                     probabilities = percentages (float_mul w) xs
                 in Inr (jsonify [(''success'', JBool True),
                                  (''prediction'', JStr predicted_class),
                                  (''confidence'', JFloat (round2 confidence)),
                                  (''probabilities'', JDict probabilities)] 200))) = Inl e"
    using unclassified [OF assms(2), of "''list index out of range''"
        "\<lambda>predicted_class_idx predicted_class.
           let confidence = float_mul w (xs ! predicted_class_idx) 100;
               probabilities = percentages (float_mul w) xs
           in Inr (jsonify [(''success'', JBool True),
                            (''prediction'', JStr predicted_class),
                            (''confidence'', JFloat (round2 confidence)),
                            (''probabilities'', JDict probabilities)] 200)"]
    by blast
  ultimately have "predict w req s = (error_500 e, s')"
    using assms(1) by (simp add: predict_def predict_try_def bind_exc_def getitem_def)
  then show "status (fst (predict w req s)) = 500"
    by (simp add: error_500_def jsonify_def)
qed

lemma load_legacy: "load_model rt_legacy s0 = (Inr (Some 7), s_loaded)"
  by (simp add: load_model_def rt_legacy_def s0_def s_loaded_def emit_def)

text \<open>
  C1, as the claim states it, fails: the handler returns what the model computes and
  never normalises it. For the PNG file of one gray pixel and a model whose output row
  is \<open>(0.25, 0.5, 0.5, 0)\<close>, the response has status 200 and its four percentages sum
  to 125.
\<close>

theorem unnormalised_row_counterexample:
  "predict w_sigmoid req_png s0 =
     (jsonify [(''success'', JBool True),
               (''prediction'', JStr ''Meningioma''),
               (''confidence'', JFloat 50),
               (''probabilities'',
                JDict [(''Glioma'', JFloat 25), (''Meningioma'', JFloat 50),
                       (''No Tumor'', JFloat 50), (''Pituitary'', JFloat 0)])] 200,
      s_loaded)
   \<and> \<not> \<bar>25 + 50 + 50 + 0 - 100\<bar> \<le> (1 / 100 :: real)"
proof -
  have w: "runtimes w_sigmoid = rt_legacy" "pillow w_sigmoid = pil_png"
    "model_predict w_sigmoid 7 gray_tensor = Inr [[1 / 4, 1 / 2, 1 / 2, 0]]"
    "float_mul w_sigmoid = (\<lambda>x y. x * y)" "\<not> DEMO_MODE s0"
    by (simp_all add: w_sigmoid_def s0_def)
  have "round2 50 = 50"
    by (simp add: round2_def py_round_def)
  then show ?thesis
    using extract_req_png load_legacy preprocess_png w
    by (simp add: predict_def predict_try_def bind_exc_def getitem_def np_argmax_def
        percentages_def CLASS_LABELS_def Let_def)
qed

text \<open>
  C1, amended. Take a request from which image bytes are extracted, and let \<open>fm\<close> be
  the binary64 multiplication. In demo mode, for the weights \<open>probs\<close> of the demo
  predictor, and in real mode, for the first row \<open>row\<close> of the model's output once the
  model is loaded and the image preprocessed, the handler answers as follows when the
  weights are not empty and their first maximal entry has an index below 4 (status 500
  otherwise). The status is 200; \<open>probabilities\<close> maps
  the labels, in order, to the weights times 100, not rounded; \<open>prediction\<close> is the
  label at the index \<open>argmax\<close>, whose weight no other weight exceeds; \<open>confidence\<close> is
  that weight times 100, in real mode rounded to two decimal places (a multiple of 0.01
  at most 0.005 away, the even one at a tie). The percentages sum to 100 within 0.01
  whenever the weights are a four-class probability vector and \<open>fm\<close> is accurate; the
  handler does not make them one. The weights of the demo predictor are such a vector
  whenever the Dirichlet sample is one and the drawn index is below 4.
\<close>

theorem prediction_response_consistent:
  assumes "extract_image req = Inr (Inr image_bytes)" and "fm = float_mul w"
  shows "(DEMO_MODE s \<longrightarrow> demo_probs (generators w) = Inr probs \<longrightarrow>
            probs \<noteq> [] \<longrightarrow> argmax probs < 4 \<longrightarrow>
            predict w req s =
              (jsonify [(''success'', JBool True), (''demo_mode'', JBool True),
                        (''prediction'', JStr (CLASS_LABELS ! argmax probs)),
                        (''confidence'', JFloat (fm (probs ! argmax probs) 100)),
                        (''probabilities'',
                         JDict (zip CLASS_LABELS (map (\<lambda>p. JFloat (fm p 100)) probs)))]
                 200, s))
       \<and> (\<not> DEMO_MODE s \<longrightarrow> load_model (runtimes w) s = (Inr (Some h), s') \<longrightarrow>
            preprocess_image (pillow w) image_bytes = Inr t \<longrightarrow>
            model_predict w h t = Inr (row # rows) \<longrightarrow>
            row \<noteq> [] \<longrightarrow> argmax row < 4 \<longrightarrow>
            predict w req s =
              (jsonify [(''success'', JBool True),
                        (''prediction'', JStr (CLASS_LABELS ! argmax row)),
                        (''confidence'', JFloat (round2 (fm (row ! argmax row) 100))),
                        (''probabilities'',
                         JDict (zip CLASS_LABELS (map (\<lambda>p. JFloat (fm p 100)) row)))]
                 200, s'))
       \<and> (DEMO_MODE s \<longrightarrow> demo_probs (generators w) = Inr probs \<longrightarrow>
            probs = [] \<or> 4 \<le> argmax probs \<longrightarrow> status (fst (predict w req s)) = 500)
       \<and> (\<not> DEMO_MODE s \<longrightarrow> load_model (runtimes w) s = (Inr (Some h), s') \<longrightarrow>
            preprocess_image (pillow w) image_bytes = Inr t \<longrightarrow>
            model_predict w h t = Inr (row # rows) \<longrightarrow>
            row = [] \<or> 4 \<le> argmax row \<longrightarrow> status (fst (predict w req s)) = 500)
       \<and> rounded_to_2_places x (round2 x)
       \<and> (\<forall>j < length xs. xs ! j \<le> xs ! argmax xs)
       \<and> (probability_vector xs \<longrightarrow> float_mul_accurate fm \<longrightarrow>
            argmax xs < 4 \<and> \<bar>sum_list (map (\<lambda>p. fm p 100) xs) - 100\<bar> \<le> 1 / 100)
       \<and> (probability_vector (np_random_dirichlet (generators w) [2, 2, 2, 2]) \<longrightarrow>
            random_randint (generators w) 0 3 < 4 \<longrightarrow>
            (\<exists>ps. demo_probs (generators w) = Inr ps \<and> probability_vector ps))"
proof (intro conjI impI allI)
  assume "DEMO_MODE s" and "demo_probs (generators w) = Inr probs"
    and "probs \<noteq> []" and "argmax probs < 4"
  then show "predict w req s =
      (jsonify [(''success'', JBool True), (''demo_mode'', JBool True),
                (''prediction'', JStr (CLASS_LABELS ! argmax probs)),
                (''confidence'', JFloat (fm (probs ! argmax probs) 100)),
                (''probabilities'',
                 JDict (zip CLASS_LABELS (map (\<lambda>p. JFloat (fm p 100)) probs)))]
         200, s)"
    unfolding assms(2) by (rule predict_demo [OF assms(1)])
next
  assume "\<not> DEMO_MODE s" and "load_model (runtimes w) s = (Inr (Some h), s')"
    and "preprocess_image (pillow w) image_bytes = Inr t"
    and "model_predict w h t = Inr (row # rows)"
    and "row \<noteq> []" and "argmax row < 4"
  then show "predict w req s =
      (jsonify [(''success'', JBool True),
                (''prediction'', JStr (CLASS_LABELS ! argmax row)),
                (''confidence'', JFloat (round2 (fm (row ! argmax row) 100))),
                (''probabilities'',
                 JDict (zip CLASS_LABELS (map (\<lambda>p. JFloat (fm p 100)) row)))]
         200, s')"
    unfolding assms(2) by (rule predict_real [OF assms(1)])
next
  assume demo: "DEMO_MODE s" and weights: "demo_probs (generators w) = Inr probs"
    and unclassified: "probs = [] \<or> 4 \<le> argmax probs"
  show "status (fst (predict w req s)) = 500"
    by (rule predict_unclassified(1) [OF assms(1) unclassified demo weights])
next
  assume real: "\<not> DEMO_MODE s" and loaded: "load_model (runtimes w) s = (Inr (Some h), s')"
    and tensor: "preprocess_image (pillow w) image_bytes = Inr t"
    and rowed: "model_predict w h t = Inr (row # rows)"
    and unclassified: "row = [] \<or> 4 \<le> argmax row"
  show "status (fst (predict w req s)) = 500"
    by (rule predict_unclassified(2) [OF assms(1) unclassified real loaded tensor rowed])
next
  show "rounded_to_2_places x (round2 x)" by (rule round2_rounds)
next
  fix j assume "j < length xs"
  then show "xs ! j \<le> xs ! argmax xs" by (rule argmax_greatest)
next
  assume "probability_vector xs"
  then show "argmax xs < 4" by (rule probability_vector_argmax)
next
  assume "probability_vector xs" and "float_mul_accurate fm"
  then show "\<bar>sum_list (map (\<lambda>p. fm p 100) xs) - 100\<bar> \<le> 1 / 100" by (rule percentages_sum)
next
  assume "probability_vector (np_random_dirichlet (generators w) [2, 2, 2, 2])"
    and "random_randint (generators w) 0 3 < 4"
  then show "\<exists>ps. demo_probs (generators w) = Inr ps \<and> probability_vector ps"
    by (rule demo_probs_vector)
qed

lemma exact_mul_accurate: "float_mul_accurate (\<lambda>x y. x * y)"
  by (simp add: float_mul_accurate_def)

lemma demo_probs_fixed: "demo_probs g_fixed = Inr [1 / 15, 7 / 15, 1 / 5, 4 / 15]"
  by (simp add: demo_probs_def g_fixed_def dirichlet_parameter Let_def)

theorem prediction_response_consistent_witness:
  "predict w_test req_png s0 =
     (jsonify [(''success'', JBool True),
               (''prediction'', JStr ''Meningioma''),
               (''confidence'', JFloat 70),
               (''probabilities'',
                JDict [(''Glioma'', JFloat 10), (''Meningioma'', JFloat (70004 / 1000)),
                       (''No Tumor'', JFloat (9996 / 1000)), (''Pituitary'', JFloat 10)])] 200,
      s_loaded)
   \<and> predict w_test req_png s_demo =
     (jsonify [(''success'', JBool True), (''demo_mode'', JBool True),
               (''prediction'', JStr ''Meningioma''),
               (''confidence'', JFloat (140 / 3)),
               (''probabilities'',
                JDict [(''Glioma'', JFloat (20 / 3)), (''Meningioma'', JFloat (140 / 3)),
                       (''No Tumor'', JFloat 20), (''Pituitary'', JFloat (80 / 3))])] 200,
      s_demo)
   \<and> rounded_to_2_places (70004 / 1000) 70
   \<and> \<bar>sum_list [10, 70004 / 1000, 9996 / 1000, 10 :: real] - 100\<bar> \<le> 1 / 100"
proof -
  have w: "runtimes w_test = rt_legacy" "pillow w_test = pil_png" "generators w_test = g_fixed"
    "model_predict w_test 7 gray_tensor = Inr [[1 / 10, 70004 / 100000, 9996 / 100000, 1 / 10]]"
    "float_mul w_test = (\<lambda>x y. x * y)" "\<not> DEMO_MODE s0" "DEMO_MODE s_demo"
    by (simp_all add: w_test_def s0_def s_demo_def)
  have r: "round2 (70004 / 1000) = 70"
    by (simp add: round2_def py_round_def)
  have pv: "probability_vector [1 / 10, 70004 / 100000, 9996 / 100000, 1 / 10]"
    by (simp add: probability_vector_def)
  note real = prediction_response_consistent [OF extract_req_png w(5) [symmetric],
      where s = s0 and h = 7 and s' = s_loaded and t = gray_tensor
        and row = "[1 / 10, 70004 / 100000, 9996 / 100000, 1 / 10]" and rows = "[]"
        and x = "70004 / 1000"
        and xs = "[1 / 10, 70004 / 100000, 9996 / 100000, 1 / 10]"]
  note demo = prediction_response_consistent [OF extract_req_png w(5) [symmetric],
      where s = s_demo and probs = "[1 / 15, 7 / 15, 1 / 5, 4 / 15]"]
  have "predict w_test req_png s0 =
     (jsonify [(''success'', JBool True),
               (''prediction'', JStr ''Meningioma''),
               (''confidence'', JFloat 70),
               (''probabilities'',
                JDict [(''Glioma'', JFloat 10), (''Meningioma'', JFloat (70004 / 1000)),
                       (''No Tumor'', JFloat (9996 / 1000)), (''Pituitary'', JFloat 10)])] 200,
      s_loaded)"
    using real [THEN conjunct2, THEN conjunct1] w load_legacy
      preprocess_png r
    by (simp add: CLASS_LABELS_def Let_def)
  moreover have "predict w_test req_png s_demo =
     (jsonify [(''success'', JBool True), (''demo_mode'', JBool True),
               (''prediction'', JStr ''Meningioma''),
               (''confidence'', JFloat (140 / 3)),
               (''probabilities'',
                JDict [(''Glioma'', JFloat (20 / 3)), (''Meningioma'', JFloat (140 / 3)),
                       (''No Tumor'', JFloat 20), (''Pituitary'', JFloat (80 / 3))])] 200,
      s_demo)"
    using demo [THEN conjunct1] w demo_probs_fixed
    by (simp add: CLASS_LABELS_def Let_def)
  moreover have "rounded_to_2_places (70004 / 1000) 70"
    using real [THEN conjunct2, THEN conjunct2, THEN conjunct2, THEN conjunct2, THEN conjunct1] r
    by simp
  moreover have "\<bar>sum_list [10, 70004 / 1000, 9996 / 1000, 10 :: real] - 100\<bar> \<le> 1 / 100"
    using real [THEN conjunct2, THEN conjunct2, THEN conjunct2, THEN conjunct2, THEN conjunct2,
        THEN conjunct2, THEN conjunct1]
      pv exact_mul_accurate w(5)
    by simp
  ultimately show ?thesis by (intro conjI)
qed

subsection \<open>Demo mode and the cached model\<close>

lemma load_model_demo: "DEMO_MODE s \<Longrightarrow> load_model rt s = (Inr None, s)"
  by (simp add: load_model_def)

lemma load_model_calls_demo:
  assumes "DEMO_MODE s"
  shows "load_model_calls rts s = (replicate (length rts) (Inr None), s)"
  by (induction rts) (simp_all add: load_model_demo [OF assms])

lemma load_model_keeps_mode:
  "load_model rt s = (r, s') \<Longrightarrow> DEMO_MODE s' = DEMO_MODE s"
  by (auto simp: load_model_def Let_def emit_def
      split: if_splits option.splits sum.splits prod.splits)

lemma load_model_failed:
  "load_model rt s = (Inl e, s') \<Longrightarrow> model s' = None"
  by (auto simp: load_model_def Let_def emit_def
      split: if_splits option.splits sum.splits prod.splits)

lemma predict_state:
  assumes "predict w req s = (resp, s')"
  shows "s' = s \<or> (\<not> DEMO_MODE s \<and> (\<exists>r. load_model (runtimes w) s = (r, s')))"
  using assms
  by (auto simp: predict_def predict_try_def split: sum.splits if_splits prod.splits)

lemma predict_demo_state: "DEMO_MODE s \<Longrightarrow> snd (predict w req s) = s"
  by (cases "predict w req s") (use predict_state in fastforce)

lemma reachable_demo_no_model: "reachable s \<Longrightarrow> DEMO_MODE s \<Longrightarrow> model s = None"
proof (induction rule: reachable.induct)
  case (start d k)
  then show ?case by simp
next
  case (loaded s rt r s')
  then show ?case
    using load_model_keeps_mode [of rt s r s'] load_model_demo [of s rt] by auto
next
  case (startup_failed s rt e s')
  then show ?case
    using load_model_failed [of rt s e s'] by simp
next
  case (served s w req resp s')
  from predict_state [OF served.hyps(2)] show ?case
  proof
    assume "s' = s"
    with served show ?thesis by simp
  next
    assume "\<not> DEMO_MODE s \<and> (\<exists>r. load_model (runtimes w) s = (r, s'))"
    then obtain r where "\<not> DEMO_MODE s" and "load_model (runtimes w) s = (r, s')" by blast
    with served.prems show ?thesis
      using load_model_keeps_mode [of "runtimes w" s r s'] by simp
  qed
qed

text \<open>
  C10. In every state the process can reach in which demo mode is enabled, a call of
  \<open>load_model\<close> (and so every call of a sequence of calls) returns \<open>None\<close>, adds no event
  to the trace (no file-system check, no import, no load call) and leaves the state as
  it is; a request of \<open>/predict\<close> leaves the state as it is; no model is cached, and the
  health endpoint reports \<open>model_loaded\<close> as false.
\<close>

theorem demo_mode_never_loads:
  assumes "reachable s" and "DEMO_MODE s"
  shows "load_model rt s = (Inr None, s)
       \<and> new_events s (snd (load_model rt s)) = []
       \<and> load_model_calls rts s = (replicate (length rts) (Inr None), s)
       \<and> snd (predict w req s) = s
       \<and> model s = None
       \<and> map_of (body (health s)) ''model_loaded'' = Some (JBool False)"
  using reachable_demo_no_model [OF assms] assms(2)
  by (simp add: load_model_demo load_model_calls_demo predict_demo_state new_events_def
      health_def jsonify_def)

theorem demo_mode_never_loads_witness:
  "load_model rt_legacy s_demo = (Inr None, s_demo)
   \<and> new_events s_demo (snd (load_model rt_legacy s_demo)) = []
   \<and> load_model_calls [rt_legacy, rt_broken] s_demo = ([Inr None, Inr None], s_demo)
   \<and> snd (predict w_test req_bare s_demo) = s_demo
   \<and> map_of (body (health s_demo)) ''model_loaded'' = Some (JBool False)"
proof -
  have "reachable s_demo"
    unfolding s_demo_def by (rule reachable.start)
  moreover have "DEMO_MODE s_demo"
    by (simp add: s_demo_def)
  ultimately show ?thesis
    using demo_mode_never_loads [of s_demo rt_legacy "[rt_legacy, rt_broken]" w_test req_bare]
    by (simp add: new_events_def del: load_model_calls.simps)
qed

subsection \<open>The chat proxy\<close>

lemma relay_ok:
  "relay cw response = Inr r \<Longrightarrow>
     status r = 200 \<and>
     (status_code response \<noteq> 200 \<longrightarrow> map_of (body r) ''error'' \<noteq> None) \<and>
     (map_of (body r) ''error'' \<noteq> None \<longrightarrow> (\<exists>t. map_of (body r) ''response'' = Some (JStr t)))"
  by (auto simp: relay_def bind_exc_def jsonify_def split: if_splits sum.splits)

lemma caught_response:
  "status (if is_Timeout e then timeout_response else failure_response e) = 200"
  "map_of (body (if is_Timeout e then timeout_response else failure_response e)) ''error'' \<noteq> None"
  "\<exists>t. map_of (body (if is_Timeout e then timeout_response else failure_response e)) ''response''
         = Some (JStr t)"
  by (simp_all add: timeout_response_def failure_response_def jsonify_def)

lemma chat_cases:
  "chat cw req s =
     (case user_message_of req of
        Inl e \<Rightarrow> (if is_Timeout e then timeout_response else failure_response e, [])
      | Inr m \<Rightarrow>
          if m = [] then (jsonify [(''error'', JStr ''No message provided'')] 400, [])
          else if OPENROUTER_API_KEY s = [] then
            (jsonify
               [(''error'', JStr ''Chatbot not configured. Please set OPENROUTER_API_KEY environment variable.''),
                (''response'', JStr ''I apologize, but the chatbot is not configured yet. Please add your OpenRouter API key to enable this feature.'')]
               200, [])
          else
            (case bind_exc (requests_post cw (chat_request s m)) (relay cw) of
               Inl e \<Rightarrow> if is_Timeout e then timeout_response else failure_response e
             | Inr r \<Rightarrow> r, [chat_request s m]))"
  by (simp add: chat_def chat_try_def split: sum.splits)

lemma user_message_samples:
  "user_message_of req_hello = Inr ''hello''" "user_message_of req_blank = Inr []"
  by (simp_all add: user_message_of_def req_hello_def req_blank_def bind_exc_def strip_def
      isspace_def)

text \<open>
  C8. The status of the response of \<open>chat\<close> is 400 exactly when the request has a
  trimmed message and it is empty, and 200 in every other case. Every call of the
  external service has a timeout of 30 seconds. Every response with status 200 that
  reports an error carries a \<open>response\<close> string. In particular: an exception before the
  call (a body that is no JSON object, a message that is no string) gives the canned
  failure response; a missing key gives, without any call of the service, a response
  string that contains \<open>not configured\<close>; and with a key there is exactly one call, a
  timeout of which gives the canned timeout response, any other exception of which gives
  the canned failure response, and an answer of which with a status other than 200 gives
  a response that reports an error.
\<close>

theorem chat_errors_in_band:
  assumes "chat cw req s = (r, calls)"
  shows "status r = (if user_message_of req = Inr [] then 400 else 200)
       \<and> list_all (\<lambda>c. timeout c = 30) calls
       \<and> (status r = 200 \<longrightarrow> map_of (body r) ''error'' \<noteq> None \<longrightarrow>
            (\<exists>t. map_of (body r) ''response'' = Some (JStr t)))
       \<and> (user_message_of req = Inl e \<longrightarrow>
            r = (if is_Timeout e then timeout_response else failure_response e) \<and> calls = [])
       \<and> (user_message_of req = Inr m \<longrightarrow> m \<noteq> [] \<longrightarrow> OPENROUTER_API_KEY s = [] \<longrightarrow>
            calls = [] \<and> map_of (body r) ''error'' \<noteq> None \<and>
            (\<exists>t. map_of (body r) ''response'' = Some (JStr t) \<and> is_substr ''not configured'' t))
       \<and> (user_message_of req = Inr m \<longrightarrow> m \<noteq> [] \<longrightarrow> OPENROUTER_API_KEY s \<noteq> [] \<longrightarrow>
            calls = [chat_request s m] \<and>
            (requests_post cw (chat_request s m) = Inl e \<longrightarrow>
               r = (if is_Timeout e then timeout_response else failure_response e)) \<and>
            (requests_post cw (chat_request s m) = Inr upstream \<longrightarrow>
               status_code upstream \<noteq> 200 \<longrightarrow> map_of (body r) ''error'' \<noteq> None))"
proof (cases "user_message_of req")
  case (Inl e')
  with assms show ?thesis
    using caught_response [of e'] by (auto simp: chat_cases)
next
  case (Inr m')
  show ?thesis
  proof (cases "m' = [] \<or> OPENROUTER_API_KEY s = []")
    case True
    with assms Inr show ?thesis
      by (auto simp: chat_cases jsonify_def)
  next
    case False
    then have call: "m' \<noteq> []" "OPENROUTER_API_KEY s \<noteq> []" by simp_all
    show ?thesis
    proof (cases "bind_exc (requests_post cw (chat_request s m')) (relay cw)")
      case (Inl e')
      with assms Inr call have r: "r = (if is_Timeout e' then timeout_response else failure_response e')"
        and calls: "calls = [chat_request s m']"
        by (auto simp: chat_cases)
      from Inl have post: "requests_post cw (chat_request s m') = Inl x \<Longrightarrow> x = e'" for x
        by (simp add: bind_exc_def)
      show ?thesis
        using caught_response [of e'] Inr call post
        unfolding r calls
        by (auto simp: chat_request_def)
    next
      case Inr': (Inr r')
      with assms Inr call have r: "r = r'" and calls: "calls = [chat_request s m']"
        by (auto simp: chat_cases)
      from Inr' obtain up where up: "requests_post cw (chat_request s m') = Inr up"
        and rel: "relay cw up = Inr r'"
        by (auto simp: bind_exc_def split: sum.splits)
      show ?thesis
        using relay_ok [OF rel] Inr call up
        unfolding r calls
        by (auto simp: chat_request_def)
    qed
  qed
qed

theorem chat_errors_in_band_witness:
  "chat cw_timeout req_hello s_keyed = (timeout_response, [chat_request s_keyed ''hello''])
   \<and> status timeout_response = 200
   \<and> status (fst (chat cw_timeout req_blank s_keyed)) = 400"
  using chat_errors_in_band [of cw_timeout req_hello s_keyed
      "fst (chat cw_timeout req_hello s_keyed)" "snd (chat cw_timeout req_hello s_keyed)"
      "Timeout ''Read timed out. (read timeout=30)''" "''hello''"]
    chat_errors_in_band [of cw_timeout req_blank s_keyed
      "fst (chat cw_timeout req_blank s_keyed)" "snd (chat cw_timeout req_blank s_keyed)"]
  by (simp add: user_message_samples s_keyed_def cw_timeout_def prod_eq_iff
      timeout_response_def jsonify_def)

end
